theory Spec2Isabelle
  imports Complex_Main
begin

section \<open>The component\<close>

text \<open>
  The React component \<open>PoseTracker\<close> in its three-dimensional form: it builds 33 joint
  spheres and one cylinder per skeleton connection, and the callback \<open>onResults\<close>, called
  with each result of the pose detector, moves and shows or hides these meshes. What is
  modelled is the state the callback reads and writes (the two mesh arrays) and the
  functions \<open>getScaleForLandmark\<close>, \<open>getColorForLandmark\<close>, \<open>createBones\<close>, \<open>updateBone\<close>
  and \<open>onResults\<close>. Camera, lights, controls and the drawing itself are left out.
\<close>

section \<open>JavaScript numbers\<close>

text \<open>
  Every coordinate handled by the component is a JavaScript number, an IEEE-754
  binary64 value: a finite value or one of the three special values. A finite value is
  given by the real number it denotes, and every arithmetic operation rounds its exact
  result to the nearest double, ties to even, with overflow to an infinity and gradual
  underflow. The two zeros are one value: they are equal under \<open>===\<close>, and the
  component never divides by a zero.
\<close>

datatype jsnum = Fin real | PInf | NInf | NaN

text \<open>Rounding a real to the nearest integer, a tie to the even neighbour.\<close>

definition rhe :: "real \<Rightarrow> int" where
  "rhe y = (let f = \<lfloor>y\<rfloor> in
      if y - of_int f < 1 / 2 then f
      else if 1 / 2 < y - of_int f then f + 1
      else if even f then f else f + 1)"

text \<open>
  The binary exponent that fixes the spacing of the doubles around \<open>x\<close> (at least
  \<open>-1022\<close>, the exponent of the subnormal range), and that spacing: 53 significant bits.
\<close>

definition binade :: "real \<Rightarrow> int" where
  "binade x = max \<lfloor>log 2 \<bar>x\<bar>\<rfloor> (- 1022)"

definition quantum :: "real \<Rightarrow> real" where
  "quantum x = 2 powi (binade x - 52)"

text \<open>
  The double nearest to a real: the nearest multiple of the spacing, and an infinity
  when that multiple reaches \<open>2^1024\<close>.
\<close>

definition round_double :: "real \<Rightarrow> jsnum" where
  "round_double x =
     (if x = 0 then Fin 0
      else let r = of_int (rhe (x / quantum x)) * quantum x in
        if 2 ^ 1024 \<le> r then PInf
        else if r \<le> - (2 ^ 1024) then NInf
        else Fin r)"

text \<open>
  The finite doubles: the reals that rounding leaves as they are. Statements about
  finite inputs quantify over this type.
\<close>

typedef double = "{x::real. round_double x = Fin x}"
proof
  show "0 \<in> {x::real. round_double x = Fin x}"
    by (simp add: round_double_def)
qed

fun jneg :: "jsnum \<Rightarrow> jsnum" where
  "jneg (Fin a) = Fin (- a)"
| "jneg PInf = NInf"
| "jneg NInf = PInf"
| "jneg NaN = NaN"

fun jadd :: "jsnum \<Rightarrow> jsnum \<Rightarrow> jsnum" where
  "jadd (Fin a) (Fin b) = round_double (a + b)"
| "jadd (Fin a) PInf = PInf"
| "jadd (Fin a) NInf = NInf"
| "jadd PInf (Fin b) = PInf"
| "jadd NInf (Fin b) = NInf"
| "jadd PInf PInf = PInf"
| "jadd NInf NInf = NInf"
| "jadd PInf NInf = NaN"
| "jadd NInf PInf = NaN"
| "jadd NaN b = NaN"
| "jadd a NaN = NaN"

definition jsub :: "jsnum \<Rightarrow> jsnum \<Rightarrow> jsnum" where
  "jsub a b = jadd a (jneg b)"

fun jmul :: "jsnum \<Rightarrow> jsnum \<Rightarrow> jsnum" where
  "jmul (Fin a) (Fin b) = round_double (a * b)"
| "jmul (Fin a) PInf = (if a = 0 then NaN else if 0 < a then PInf else NInf)"
| "jmul (Fin a) NInf = (if a = 0 then NaN else if 0 < a then NInf else PInf)"
| "jmul PInf (Fin b) = (if b = 0 then NaN else if 0 < b then PInf else NInf)"
| "jmul NInf (Fin b) = (if b = 0 then NaN else if 0 < b then NInf else PInf)"
| "jmul PInf PInf = PInf"
| "jmul NInf NInf = PInf"
| "jmul PInf NInf = NInf"
| "jmul NInf PInf = NInf"
| "jmul NaN b = NaN"
| "jmul a NaN = NaN"

fun jdiv :: "jsnum \<Rightarrow> jsnum \<Rightarrow> jsnum" where
  "jdiv (Fin a) (Fin b) =
     (if b = 0 then (if a = 0 then NaN else if 0 < a then PInf else NInf)
      else round_double (a / b))"
| "jdiv (Fin a) PInf = Fin 0"
| "jdiv (Fin a) NInf = Fin 0"
| "jdiv PInf (Fin b) = (if 0 \<le> b then PInf else NInf)"
| "jdiv NInf (Fin b) = (if 0 \<le> b then NInf else PInf)"
| "jdiv PInf PInf = NaN"
| "jdiv NInf NInf = NaN"
| "jdiv PInf NInf = NaN"
| "jdiv NInf PInf = NaN"
| "jdiv NaN b = NaN"
| "jdiv a NaN = NaN"

text \<open>\<open>Math.sqrt\<close> and \<open>Math.abs\<close>.\<close>

fun jsqrt :: "jsnum \<Rightarrow> jsnum" where
  "jsqrt (Fin a) = (if a < 0 then NaN else round_double (sqrt a))"
| "jsqrt PInf = PInf"
| "jsqrt NInf = NaN"
| "jsqrt NaN = NaN"

fun jabs :: "jsnum \<Rightarrow> jsnum" where
  "jabs (Fin a) = Fin \<bar>a\<bar>"
| "jabs PInf = PInf"
| "jabs NInf = PInf"
| "jabs NaN = NaN"

text \<open>The comparison \<open>a < b\<close>: false as soon as one side is NaN.\<close>

fun jless :: "jsnum \<Rightarrow> jsnum \<Rightarrow> bool" where
  "jless (Fin a) (Fin b) = (a < b)"
| "jless (Fin a) PInf = True"
| "jless NInf (Fin b) = True"
| "jless NInf PInf = True"
| "jless a b = False"

text \<open>Truthiness of a number (\<open>0\<close> and \<open>NaN\<close> are falsy) and \<open>a || b\<close> on numbers.\<close>

definition truthy :: "jsnum \<Rightarrow> bool" where
  "truthy a = (a \<noteq> Fin 0 \<and> a \<noteq> NaN)"

definition jor :: "jsnum \<Rightarrow> jsnum \<Rightarrow> jsnum" where
  "jor a b = (if truthy a then a else b)"

definition finite_num :: "jsnum \<Rightarrow> bool" where
  "finite_num a = (case a of Fin r \<Rightarrow> True | _ \<Rightarrow> False)"

section \<open>The vector and quaternion operations of three.js used by the component\<close>

text \<open>
  \<open>THREE.Vector3\<close> and \<open>THREE.Quaternion\<close> are objects mutated in place; each method
  below returns the receiver's new value. Only the methods that \<open>updateBone\<close> calls are
  modelled, with the bodies they have in the three.js library.
\<close>

datatype vec3 = Vector3 (vx: jsnum) (vy: jsnum) (vz: jsnum)

datatype quat = Quaternion (qx: jsnum) (qy: jsnum) (qz: jsnum) (qw: jsnum)

definition subVectors :: "vec3 \<Rightarrow> vec3 \<Rightarrow> vec3" where
  "subVectors a b = Vector3 (jsub (vx a) (vx b)) (jsub (vy a) (vy b)) (jsub (vz a) (vz b))"

definition vadd :: "vec3 \<Rightarrow> vec3 \<Rightarrow> vec3" where
  "vadd a b = Vector3 (jadd (vx a) (vx b)) (jadd (vy a) (vy b)) (jadd (vz a) (vz b))"

definition vlength :: "vec3 \<Rightarrow> jsnum" where
  "vlength v =
     jsqrt (jadd (jadd (jmul (vx v) (vx v)) (jmul (vy v) (vy v))) (jmul (vz v) (vz v)))"

definition multiplyScalar :: "vec3 \<Rightarrow> jsnum \<Rightarrow> vec3" where
  "multiplyScalar v s = Vector3 (jmul (vx v) s) (jmul (vy v) s) (jmul (vz v) s)"

definition divideScalar :: "vec3 \<Rightarrow> jsnum \<Rightarrow> vec3" where
  "divideScalar v s = multiplyScalar v (jdiv (Fin 1) s)"

text \<open>\<open>normalize() { return this.divideScalar( this.length() || 1 ); }\<close>\<close>

definition normalize_divisor :: "vec3 \<Rightarrow> jsnum" where
  "normalize_divisor v = jor (vlength v) (Fin 1)"

definition vnormalize :: "vec3 \<Rightarrow> vec3" where
  "vnormalize v = divideScalar v (normalize_divisor v)"

definition dot :: "vec3 \<Rightarrow> vec3 \<Rightarrow> jsnum" where
  "dot a b = jadd (jadd (jmul (vx a) (vx b)) (jmul (vy a) (vy b))) (jmul (vz a) (vz b))"

definition qlength :: "quat \<Rightarrow> jsnum" where
  "qlength q =
     jsqrt (jadd (jadd (jadd (jmul (qx q) (qx q)) (jmul (qy q) (qy q)))
                       (jmul (qz q) (qz q))) (jmul (qw q) (qw q)))"

text \<open>
  \<open>Quaternion.normalize\<close>: a quaternion of length exactly zero becomes the identity,
  any other one is multiplied by the reciprocal of its length.
\<close>

definition qnormalize :: "quat \<Rightarrow> quat" where
  "qnormalize q =
     (let l = qlength q in
      if l = Fin 0 then Quaternion (Fin 0) (Fin 0) (Fin 0) (Fin 1)
      else let l' = jdiv (Fin 1) l in
        Quaternion (jmul (qx q) l') (jmul (qy q) l') (jmul (qz q) l') (jmul (qw q) l'))"

text \<open>
  \<open>Quaternion.setFromUnitVectors(vFrom, vTo)\<close> before its final \<open>normalize()\<close>. With
  \<open>r = vFrom.dot(vTo) + 1\<close>, the branch \<open>r < eps\<close> is the library's treatment of opposite
  vectors. The threshold differs between releases of the library (\<open>Number.EPSILON\<close> in
  most of them), so it is the parameter \<open>eps\<close>.
\<close>

definition setFromUnitVectors_raw :: "real \<Rightarrow> vec3 \<Rightarrow> vec3 \<Rightarrow> quat" where
  "setFromUnitVectors_raw eps vFrom vTo =
     (let r = jadd (dot vFrom vTo) (Fin 1) in
      if jless r (Fin eps) then
        (if jless (jabs (vz vFrom)) (jabs (vx vFrom))
         then Quaternion (jneg (vy vFrom)) (vx vFrom) (Fin 0) (Fin 0)
         else Quaternion (Fin 0) (jneg (vz vFrom)) (vy vFrom) (Fin 0))
      else
        Quaternion (jsub (jmul (vy vFrom) (vz vTo)) (jmul (vz vFrom) (vy vTo)))
                   (jsub (jmul (vz vFrom) (vx vTo)) (jmul (vx vFrom) (vz vTo)))
                   (jsub (jmul (vx vFrom) (vy vTo)) (jmul (vy vFrom) (vx vTo)))
                   r)"

definition setFromUnitVectors :: "real \<Rightarrow> vec3 \<Rightarrow> vec3 \<Rightarrow> quat" where
  "setFromUnitVectors eps vFrom vTo = qnormalize (setFromUnitVectors_raw eps vFrom vTo)"

section \<open>The scene: joint and bone meshes\<close>

datatype geometry =
    SphereGeometry jsnum nat nat
  | CylinderGeometry jsnum jsnum jsnum nat

text \<open>
  A \<open>THREE.Mesh\<close>, reduced to what the component sets or reads: the geometry and the
  material colour fixed at construction, and the transform and visibility flag.
\<close>

record mesh =
  geometry :: geometry
  color :: nat
  position :: vec3
  scale :: vec3
  quaternion :: quat
  visible :: bool

text \<open>A freshly constructed mesh: at the origin, unit scale, identity rotation, visible.\<close>

definition Mesh :: "geometry \<Rightarrow> nat \<Rightarrow> mesh" where
  "Mesh g c =
     \<lparr> geometry = g, color = c,
       position = Vector3 (Fin 0) (Fin 0) (Fin 0),
       scale = Vector3 (Fin 1) (Fin 1) (Fin 1),
       quaternion = Quaternion (Fin 0) (Fin 0) (Fin 0) (Fin 1),
       visible = True \<rparr>"

text \<open>The two arrays \<open>jointMeshesRef.current\<close> and \<open>boneMeshesRef.current\<close>.\<close>

record scene =
  jointMeshes :: "mesh list"
  boneMeshes :: "mesh list"

subsection \<open>Construction\<close>

definition getScaleForLandmark :: "int \<Rightarrow> jsnum" where
  "getScaleForLandmark index =
     (if (index \<ge> 0 \<and> index \<le> 10) \<or> (index \<ge> 17 \<and> index \<le> 22) then round_double 0.02
      else round_double 0.05)"

definition getColorForLandmark :: "int \<Rightarrow> nat" where
  "getColorForLandmark index =
     (if (index \<ge> 0 \<and> index \<le> 10) \<or> (index \<ge> 17 \<and> index \<le> 22) then 0xffff00
      else 0x00ff00)"

definition createJoint :: "nat \<Rightarrow> mesh" where
  "createJoint i =
     (Mesh (SphereGeometry (getScaleForLandmark (int i)) 16 16)
           (getColorForLandmark (int i))) \<lparr> visible := False \<rparr>"

definition createBone :: "mesh" where
  "createBone =
     (Mesh (CylinderGeometry (round_double 0.02) (round_double 0.02) (Fin 1) 8) 0x00ff00) \<lparr> visible := False \<rparr>"

text \<open>
  The first effect: 33 joint spheres, then one cylinder for each entry of
  \<open>POSE_CONNECTIONS\<close>. That table belongs to the pose library; it is the parameter
  \<open>conns\<close>, a list of pairs of landmark indices.
\<close>

definition createBones :: "(nat \<times> nat) list \<Rightarrow> mesh list" where
  "createBones conns = map (\<lambda>c. createBone) conns"

definition initScene :: "(nat \<times> nat) list \<Rightarrow> scene" where
  "initScene conns =
     \<lparr> jointMeshes = map createJoint [0 ..< 33], boneMeshes = createBones conns \<rparr>"

subsection \<open>The bone solver\<close>

text \<open>
  \<open>updateBone\<close>. \<open>direction.multiplyScalar(0.5)\<close> halves \<open>direction\<close> in place, so it is
  the halved vector that is normalised afterwards; \<open>length\<close> was read before.
\<close>

definition updateBone :: "real \<Rightarrow> mesh \<Rightarrow> vec3 \<Rightarrow> vec3 \<Rightarrow> mesh" where
  "updateBone eps bone point1 point2 =
     (let direction = subVectors point2 point1;
          len = vlength direction;
          direction' = multiplyScalar direction (Fin 0.5)
      in bone \<lparr> position := vadd point1 direction',
                scale := Vector3 (vx (scale bone)) len (vz (scale bone)),
                quaternion :=
                  setFromUnitVectors eps (Vector3 (Fin 0) (Fin 1) (Fin 0)) (vnormalize direction'),
                visible := True \<rparr>)"

subsection \<open>The detector callback\<close>

datatype landmark = Landmark (lx: jsnum) (ly: jsnum) (lz: jsnum)

text \<open>
  One index of the array \<open>results.poseWorldLandmarks\<close>: no element at all (a hole of a
  sparse array; an index past the end reads the same way), an element that is
  \<open>undefined\<close> or \<open>null\<close>, or a landmark object.
\<close>

datatype entry = Hole | Nullish | Present landmark

record results =
  poseWorldLandmarks :: "entry list option"

text \<open>Reading \<open>array[i]\<close>: past the end the value is \<open>undefined\<close>, which is falsy like a hole.\<close>

definition at_index :: "entry list \<Rightarrow> nat \<Rightarrow> entry" where
  "at_index xs i = (if i < length xs then xs ! i else Hole)"

text \<open>The conversion written out at each use in \<open>onResults\<close>: every coordinate negated.\<close>

definition toRenderSpace :: "landmark \<Rightarrow> vec3" where
  "toRenderSpace l = Vector3 (jneg (lx l)) (jneg (ly l)) (jneg (lz l))"

datatype error = TypeError

text \<open>
  The first \<open>forEach\<close>: holes are skipped by \<open>forEach\<close>; an index with no joint mesh is
  skipped by \<open>if (mesh)\<close>; reading \<open>.x\<close> of \<open>undefined\<close> or \<open>null\<close> throws, leaving the
  meshes updated so far as they are.
\<close>

fun updateJoints :: "entry list \<Rightarrow> nat \<Rightarrow> mesh list \<Rightarrow> (error \<times> mesh list) + mesh list" where
  "updateJoints [] index ms = Inr ms"
| "updateJoints (Hole # es) index ms = updateJoints es (Suc index) ms"
| "updateJoints (Nullish # es) index ms =
     (if index < length ms then Inl (TypeError, ms)
      else updateJoints es (Suc index) ms)"
| "updateJoints (Present l # es) index ms =
     (if index < length ms
      then updateJoints es (Suc index)
             (ms [index := (ms ! index) \<lparr> position := toRenderSpace l, visible := True \<rparr>])
      else updateJoints es (Suc index) ms)"

text \<open>
  The second \<open>forEach\<close>, over the connections: a bone is touched only when both of its
  landmarks are truthy and its mesh exists; there is no other branch.
\<close>

fun updateBones :: "real \<Rightarrow> entry list \<Rightarrow> (nat \<times> nat) list \<Rightarrow> nat \<Rightarrow> mesh list \<Rightarrow> mesh list" where
  "updateBones eps lms [] index bs = bs"
| "updateBones eps lms ((startIdx, endIdx) # cs) index bs =
     (case (at_index lms startIdx, at_index lms endIdx) of
        (Present startLandmark, Present endLandmark) \<Rightarrow>
          (if index < length bs
           then updateBones eps lms cs (Suc index)
                  (bs [index := updateBone eps (bs ! index)
                                  (toRenderSpace startLandmark) (toRenderSpace endLandmark)])
           else updateBones eps lms cs (Suc index) bs)
      | _ \<Rightarrow> updateBones eps lms cs (Suc index) bs)"

definition hide :: "mesh \<Rightarrow> mesh" where
  "hide m = m \<lparr> visible := False \<rparr>"

text \<open>
  \<open>onResults\<close>: \<open>Inr\<close> is the scene after a normal return, \<open>Inl\<close> the exception with the
  scene as the throw left it.
\<close>

definition onResults ::
  "real \<Rightarrow> (nat \<times> nat) list \<Rightarrow> scene \<Rightarrow> results \<Rightarrow> (error \<times> scene) + scene" where
  "onResults eps conns st res =
     (case poseWorldLandmarks res of
        None \<Rightarrow>
          Inr (st \<lparr> jointMeshes := map hide (jointMeshes st),
                    boneMeshes := map hide (boneMeshes st) \<rparr>)
      | Some lms \<Rightarrow>
          (case updateJoints lms 0 (jointMeshes st) of
             Inl (e, js) \<Rightarrow> Inl (e, st \<lparr> jointMeshes := js \<rparr>)
           | Inr js \<Rightarrow>
               Inr (st \<lparr> jointMeshes := js,
                         boneMeshes := updateBones eps lms conns 0 (boneMeshes st) \<rparr>)))"

text \<open>The scene the render loop draws next, whether the callback returned or threw.\<close>

definition sceneAfter :: "(error \<times> scene) + scene \<Rightarrow> scene" where
  "sceneAfter r = (case r of Inl (e, s) \<Rightarrow> s | Inr s \<Rightarrow> s)"

text \<open>The scenes that can arise: the constructed one, then any sequence of callbacks.\<close>

inductive reachable :: "real \<Rightarrow> (nat \<times> nat) list \<Rightarrow> scene \<Rightarrow> bool"
  for eps :: real and conns :: "(nat \<times> nat) list" where
  init: "reachable eps conns (initScene conns)"
| step: "reachable eps conns st \<Longrightarrow> reachable eps conns (sceneAfter (onResults eps conns st res))"

section \<open>Notions used to state the properties\<close>

text \<open>Whether the callback returned normally.\<close>

definition returned :: "(error \<times> scene) + scene \<Rightarrow> bool" where
  "returned r = (case r of Inl x \<Rightarrow> False | Inr s \<Rightarrow> True)"

text \<open>The joint meshes as the first loop leaves them, on either outcome.\<close>

definition jointsAfter :: "(error \<times> mesh list) + mesh list \<Rightarrow> mesh list" where
  "jointsAfter r = (case r of Inl (e, ms) \<Rightarrow> ms | Inr ms \<Rightarrow> ms)"

text \<open>A landmark is present at an index when the array element there is truthy.\<close>

definition entry_present :: "entry \<Rightarrow> bool" where
  "entry_present e = (case e of Present l \<Rightarrow> True | _ \<Rightarrow> False)"

text \<open>Every index below \<open>n\<close> has a landmark present.\<close>

definition all_present :: "entry list \<Rightarrow> nat \<Rightarrow> bool" where
  "all_present lms n = list_all (\<lambda>j. entry_present (at_index lms j)) [0 ..< n]"

text \<open>A landmark or a vector all of whose coordinates are finite.\<close>

definition finite_landmark :: "landmark \<Rightarrow> bool" where
  "finite_landmark l = (finite_num (lx l) \<and> finite_num (ly l) \<and> finite_num (lz l))"

definition finite_vec :: "vec3 \<Rightarrow> bool" where
  "finite_vec v = (finite_num (vx v) \<and> finite_num (vy v) \<and> finite_num (vz v))"

text \<open>
  Points with real coordinates and points with double coordinates; the vector of a
  point, and the quaternion of four reals.
\<close>

type_synonym point = "real \<times> real \<times> real"

type_synonym dpoint = "double \<times> double \<times> double"

definition real3 :: "dpoint \<Rightarrow> point" where
  "real3 p = (case p of (x, y, z) \<Rightarrow> (Rep_double x, Rep_double y, Rep_double z))"

definition vec_of :: "point \<Rightarrow> vec3" where
  "vec_of p = (case p of (x, y, z) \<Rightarrow> Vector3 (Fin x) (Fin y) (Fin z))"

definition fin3 :: "dpoint \<Rightarrow> vec3" where
  "fin3 p = vec_of (real3 p)"

text \<open>The point with double coordinates that a triple of doubles, given as reals, denotes.\<close>

definition dpoint_of :: "point \<Rightarrow> dpoint" where
  "dpoint_of p = (case p of (x, y, z) \<Rightarrow> (Abs_double x, Abs_double y, Abs_double z))"

definition fin4 :: "real \<times> real \<times> real \<times> real \<Rightarrow> quat" where
  "fin4 q = (case q of (a, b, c, w) \<Rightarrow> Quaternion (Fin a) (Fin b) (Fin c) (Fin w))"


text \<open>Half the smallest positive double: the most that rounding can err near zero.\<close>

definition eta :: real where
  "eta = 1 / 2 ^ 1075"

text \<open>
  The specification's bone solver, in its own words: the midpoint \<open>a + 0.5 * (b - a)\<close>,
  the Euclidean length \<open>|b - a|\<close> and the normalised direction \<open>(b - a) / |b - a|\<close>.
\<close>

definition spec_placement :: "point \<Rightarrow> point \<Rightarrow> point" where
  "spec_placement a b =
     (case a of (ax, ay, az) \<Rightarrow> case b of (bx, by, bz) \<Rightarrow>
        (ax + 0.5 * (bx - ax), ay + 0.5 * (by - ay), az + 0.5 * (bz - az)))"




text \<open>The largest coordinate magnitude of a point.\<close>

definition max_abs :: "point \<Rightarrow> real" where
  "max_abs p = (case p of (x, y, z) \<Rightarrow> max \<bar>x\<bar> (max \<bar>y\<bar> \<bar>z\<bar>))"

text \<open>
  A computed number is near a real when it is finite and within the tolerance; a computed
  vector is near a point when each coordinate is, with its own tolerance; a point is
  close to another when each coordinate is within the one tolerance.
\<close>

fun near :: "jsnum \<Rightarrow> real \<Rightarrow> real \<Rightarrow> bool" where
  "near (Fin x) c tol = (\<bar>x - c\<bar> \<le> tol)"
| "near PInf c tol = False"
| "near NInf c tol = False"
| "near NaN c tol = False"

definition near3 :: "vec3 \<Rightarrow> point \<Rightarrow> point \<Rightarrow> bool" where
  "near3 v c tol =
     (case c of (cx, cy, cz) \<Rightarrow> case tol of (tx, ty, tz) \<Rightarrow>
        near (vx v) cx tx \<and> near (vy v) cy ty \<and> near (vz v) cz tz)"


text \<open>
  The tolerances of the bone solver. The three roundings of \<open>a + (b - a) * 0.5\<close> cost at
  most \<open>(|a| + |b|) / 2^51\<close>, and \<open>2^-1073\<close> more where the halving underflows. The
  orientation is computed from \<open>r = 1 + u\<^sub>y\<close>, which loses relative accuracy as the unit
  direction \<open>u\<close> approaches straight down, hence a tolerance in proportion to \<open>1 / r\<close>.
\<close>

definition placement_tolerance :: "point \<Rightarrow> point \<Rightarrow> point" where
  "placement_tolerance a b =
     (case a of (ax, ay, az) \<Rightarrow> case b of (bx, by, bz) \<Rightarrow>
        ((\<bar>ax\<bar> + \<bar>bx\<bar>) / 2 ^ 51 + 1 / 2 ^ 1073,
         (\<bar>ay\<bar> + \<bar>by\<bar>) / 2 ^ 51 + 1 / 2 ^ 1073,
         (\<bar>az\<bar> + \<bar>bz\<bar>) / 2 ^ 51 + 1 / 2 ^ 1073))"



subsection \<open>Concrete inputs\<close>

text \<open>\<open>Number.EPSILON\<close>, the threshold of current three.js releases.\<close>

definition Number_EPSILON :: real where
  "Number_EPSILON = 1 / 2 ^ 52"

text \<open>A topology with the single bone 0--1, and seven detector results.\<close>

definition pair_topology :: "(nat \<times> nat) list" where
  "pair_topology = [(0, 1)]"

definition frame_both :: results where
  "frame_both = \<lparr> poseWorldLandmarks =
      Some [Present (Landmark (Fin 0) (Fin 0) (Fin 0)), Present (Landmark (Fin 1) (Fin 1) (Fin 0))] \<rparr>"

definition frame_first_only :: results where
  "frame_first_only = \<lparr> poseWorldLandmarks = Some [Present (Landmark (Fin 0) (Fin 0) (Fin 0))] \<rparr>"

definition frame_first_moved :: results where
  "frame_first_moved = \<lparr> poseWorldLandmarks = Some [Present (Landmark (Fin 2) (Fin 0) (Fin 0))] \<rparr>"

definition frame_first_moved_then_null :: results where
  "frame_first_moved_then_null =
     \<lparr> poseWorldLandmarks = Some [Present (Landmark (Fin 2) (Fin 0) (Fin 0)), Nullish] \<rparr>"

definition frame_nan :: results where
  "frame_nan = \<lparr> poseWorldLandmarks =
      Some [Present (Landmark NaN (Fin 0) (Fin 0)), Present (Landmark (Fin 1) (Fin 1) (Fin 0))] \<rparr>"

definition frame_all :: results where
  "frame_all = \<lparr> poseWorldLandmarks =
      Some (replicate 33 (Present (Landmark (Fin 1) (Fin 1) (Fin 0)))) \<rparr>"

definition no_detection :: results where
  "no_detection = \<lparr> poseWorldLandmarks = None \<rparr>"

text \<open>The scene after the first callback, called with both landmarks of the bone.\<close>

definition scene_both :: scene where
  "scene_both =
     sceneAfter (onResults Number_EPSILON pair_topology (initScene pair_topology) frame_both)"





definition eighth :: point where
  "eighth = (1 / 8, 0, 0)"

definition past_minus_eighth :: point where
  "past_minus_eighth = (- (1 / 8 + 1 / 2 ^ 55), 0, 0)"


section \<open>Rounding to the nearest double\<close>

lemma rhe_cases:
  "rhe y = \<lfloor>y\<rfloor> \<or> rhe y = \<lfloor>y\<rfloor> + 1"
  by (simp add: rhe_def Let_def)

lemma rhe_error: "\<bar>of_int (rhe y) - y\<bar> \<le> 1 / 2"
proof -
  have "of_int \<lfloor>y\<rfloor> \<le> y" "y < of_int \<lfloor>y\<rfloor> + 1" by linarith+
  then show ?thesis
    by (auto simp: rhe_def Let_def abs_le_iff)
qed

lemma rhe_of_int [simp]: "rhe (of_int n) = n"
  by (simp add: rhe_def)

lemma rhe_near:
  assumes "\<bar>y - of_int n\<bar> < 1 / 2"
  shows "rhe y = n"
proof -
  have e: "\<bar>of_int (rhe y) - y\<bar> \<le> 1 / 2" by (rule rhe_error)
  have "\<bar>(of_int (rhe y) :: real) - of_int n\<bar> < 1"
    using assms e by linarith
  then have "\<bar>of_int (rhe y - n) :: real\<bar> < 1" by simp
  then have "\<bar>rhe y - n\<bar> < 1"
    by (metis of_int_abs of_int_less_1_iff)
  then show ?thesis by simp
qed

lemma rhe_uminus: "rhe (- y) = - rhe y"
proof (cases "y = of_int \<lfloor>y\<rfloor>")
  case True
  then obtain n where "y = of_int n" by metis
  then show ?thesis
    by (metis of_int_minus rhe_of_int)
next
  case False
  define f where "f = \<lfloor>y\<rfloor>"
  have lo: "of_int f < y" using False f_def
    by (metis of_int_floor_le order_le_imp_less_or_eq) 
  have hi: "y < of_int f + 1" unfolding f_def by linarith
  have fl: "\<lfloor>- y\<rfloor> = - f - 1"
    by (rule floor_unique) (use lo hi in auto)
  have ev: "even (- f - 1) \<longleftrightarrow> odd f" by simp
  show ?thesis
    unfolding rhe_def Let_def fl f_def[symmetric] ev
    using lo hi by (auto simp: algebra_simps)
qed

lemma rhe_nonneg: "0 \<le> y \<Longrightarrow> 0 \<le> rhe y"
  using rhe_cases[of y] by (smt (verit) zero_le_floor)

lemma quantum_pos [simp]: "0 < quantum x"
  by (simp add: quantum_def)

lemma binade_uminus [simp]: "binade (- x) = binade x"
  by (simp add: binade_def)

lemma quantum_uminus [simp]: "quantum (- x) = quantum x"
  by (simp add: quantum_def)

lemma round_double_0 [simp]: "round_double 0 = Fin 0"
  by (simp add: round_double_def)

lemma round_double_uminus: "round_double (- x) = jneg (round_double x)"
  by (auto simp: round_double_def Let_def rhe_uminus)

lemma powr_powi: "(2::real) powr (of_int e) = 2 powi e"
  by (rule powr_real_of_int') simp_all

lemma powi_le_iff_log:
  assumes "0 < x"
  shows "2 powi e \<le> x \<longleftrightarrow> of_int e \<le> log 2 x"
  using le_log_iff[of 2 x "of_int e"] assms by (simp only: powr_powi)

lemma less_powi_iff_log:
  assumes "0 < x"
  shows "x < 2 powi e \<longleftrightarrow> log 2 x < of_int e"
  using log_less_iff[of 2 x "of_int e"] assms by (simp only: powr_powi)

lemma floor_log2_eq:
  assumes "2 powi e \<le> \<bar>x\<bar>" and "\<bar>x\<bar> < 2 powi (e + 1)"
  shows "\<lfloor>log 2 \<bar>x\<bar>\<rfloor> = e"
proof (rule floor_unique)
  have pos: "0 < \<bar>x\<bar>"
    using assms(1) by (smt (verit) zero_less_power_int)
  show "of_int e \<le> log 2 \<bar>x\<bar>"
    using assms(1) powi_le_iff_log[OF pos] by simp
  have "log 2 \<bar>x\<bar> < of_int (e + 1)"
    using assms(2) less_powi_iff_log[OF pos] by simp
  then show "log 2 \<bar>x\<bar> < of_int e + 1" by simp
qed

lemma binade_normal:
  assumes "2 powi e \<le> \<bar>x\<bar>" and "\<bar>x\<bar> < 2 powi (e + 1)" and "- 1022 \<le> e"
  shows "binade x = e"
  using floor_log2_eq[OF assms(1,2)] assms(3) by (simp add: binade_def)

lemma binade_subnormal:
  assumes "x \<noteq> 0" and "\<bar>x\<bar> < 2 powi (- 1022)"
  shows "binade x = - 1022"
proof -
  have pos: "0 < \<bar>x\<bar>" using assms(1) by simp
  have "log 2 \<bar>x\<bar> < of_int (- 1022)"
    using assms(2) less_powi_iff_log[OF pos, of "- 1022"] by blast
  then have "\<lfloor>log 2 \<bar>x\<bar>\<rfloor> < - 1022"
    by (simp add: floor_less_iff)
  then show ?thesis by (simp add: binade_def)
qed

lemma binade_ge: "- 1022 \<le> binade x"
  by (simp add: binade_def)

lemma binade_le_abs:
  assumes "x \<noteq> 0"
  shows "binade x = - 1022 \<or> 2 powi (binade x) \<le> \<bar>x\<bar>"
proof (cases "\<lfloor>log 2 \<bar>x\<bar>\<rfloor> \<le> - 1022")
  case True
  then show ?thesis by (simp add: binade_def)
next
  case False
  then have b: "binade x = \<lfloor>log 2 \<bar>x\<bar>\<rfloor>" by (simp add: binade_def)
  have pos: "0 < \<bar>x\<bar>" using assms by simp
  have "of_int \<lfloor>log 2 \<bar>x\<bar>\<rfloor> \<le> log 2 \<bar>x\<bar>" by simp
  then have "2 powi \<lfloor>log 2 \<bar>x\<bar>\<rfloor> \<le> \<bar>x\<bar>"
    using powi_le_iff_log[OF pos] by blast
  then show ?thesis
    unfolding b by simp
qed

lemma abs_lt_binade:
  assumes "x \<noteq> 0"
  shows "\<bar>x\<bar> < 2 powi (binade x + 1)"
proof -
  have pos: "0 < \<bar>x\<bar>" using assms by simp
  have "log 2 \<bar>x\<bar> < of_int (\<lfloor>log 2 \<bar>x\<bar>\<rfloor> + 1)" by simp
  then have 1: "\<bar>x\<bar> < 2 powi (\<lfloor>log 2 \<bar>x\<bar>\<rfloor> + 1)"
    using less_powi_iff_log[OF pos] by blast
  have "\<lfloor>log 2 \<bar>x\<bar>\<rfloor> + 1 \<le> binade x + 1" by (simp add: binade_def)
  then have "(2::real) powi (\<lfloor>log 2 \<bar>x\<bar>\<rfloor> + 1) \<le> 2 powi (binade x + 1)"
    by (intro power_int_increasing) auto
  with 1 show ?thesis by linarith
qed

lemma rhe_ge: "of_int m \<le> y \<Longrightarrow> m \<le> rhe y"
  using rhe_cases[of y] by (smt (verit) le_floor_iff)

lemma rhe_le: "y \<le> of_int m \<Longrightarrow> rhe y \<le> m"
  using rhe_ge[of "- m" "- y"] by (simp add: rhe_uminus)

lemma abs_quantum [simp]: "\<bar>quantum x\<bar> = quantum x"
  using quantum_pos[of x] by linarith

lemma rhe_numeral [simp]: "rhe (numeral k) = numeral k"
  using rhe_of_int[of "numeral k"] by simp

lemma rhe_neg_numeral [simp]: "rhe (- numeral k) = - numeral k"
  using rhe_of_int[of "- numeral k"] by simp

lemma rhe_0 [simp]: "rhe 0 = 0"
  using rhe_of_int[of 0] by simp

lemma rhe_1 [simp]: "rhe 1 = 1"
  using rhe_of_int[of 1] by simp

lemma pow52_quantum: "2 ^ 53 * quantum x = 2 powi (binade x + 1)"
proof -
  have "(2::real) ^ 53 = 2 powi 53" by simp
  then have "2 ^ 53 * quantum x = 2 powi 53 * 2 powi (binade x - 52)"
    by (simp only: quantum_def)
  also have "\<dots> = 2 powi (53 + (binade x - 52))"
    by (rule power_int_add[symmetric]) simp
  finally show ?thesis by (simp add: algebra_simps)
qed

lemma rounded_abs_le:
  assumes "x \<noteq> 0"
  shows "\<bar>of_int (rhe (x / quantum x)) * quantum x\<bar> \<le> 2 powi (binade x + 1)"
proof -
  have q: "0 < quantum x" by simp
  have "\<bar>x\<bar> < 2 ^ 53 * quantum x"
    using abs_lt_binade[OF assms] by (simp only: pow52_quantum)
  then have "\<bar>x\<bar> / quantum x < 2 ^ 53"
    using q by (simp add: pos_divide_less_eq)
  then have A: "\<bar>x / quantum x\<bar> < 2 ^ 53"
    using q by (simp add: abs_divide)
  have "- (2 ^ 53) \<le> x / quantum x" "x / quantum x \<le> 2 ^ 53"
    using A by linarith+
  then have "- of_int (2 ^ 53) \<le> x / quantum x" "x / quantum x \<le> of_int (2 ^ 53)"
    by simp_all
  then have "- (2 ^ 53) \<le> rhe (x / quantum x)" "rhe (x / quantum x) \<le> 2 ^ 53"
    using rhe_ge[of "- (2 ^ 53)" "x / quantum x"] rhe_le[of "x / quantum x" "2 ^ 53"]
    by auto
  then have "\<bar>rhe (x / quantum x)\<bar> \<le> 2 ^ 53" by (auto simp: abs_le_iff)
  then have "\<bar>of_int (rhe (x / quantum x)) :: real\<bar> \<le> 2 ^ 53"
    by (metis of_int_abs of_int_le_iff of_int_numeral of_int_power)
  then have "\<bar>of_int (rhe (x / quantum x)) * quantum x\<bar> \<le> 2 ^ 53 * quantum x"
    using q by (simp add: abs_mult mult_right_mono)
  then show ?thesis by (simp only: pow52_quantum)
qed

lemma round_double_finite:
  assumes "x \<noteq> 0" and "binade x \<le> 1022"
  shows "round_double x = Fin (of_int (rhe (x / quantum x)) * quantum x)"
proof -
  have "(2::real) powi (binade x + 1) \<le> 2 powi 1023"
    using assms(2) by (intro power_int_increasing) auto
  also have "\<dots> < (2::real) powi 1024"
    by (intro power_int_strict_increasing) auto
  finally have "(2::real) powi (binade x + 1) < 2 ^ 1024" by simp
  with rounded_abs_le[OF assms(1)]
  have "\<bar>of_int (rhe (x / quantum x)) * quantum x\<bar> < (2::real) ^ 1024" by linarith
  then show ?thesis
    using assms(1) by (simp add: round_double_def Let_def abs_less_iff not_le)
qed

lemma round_double_normal:
  assumes "2 powi e \<le> \<bar>x\<bar>" and "\<bar>x\<bar> < 2 powi (e + 1)" and "- 1022 \<le> e" and "e \<le> 1022"
    and "rhe (x / 2 powi (e - 52)) = n"
  shows "round_double x = Fin (of_int n * 2 powi (e - 52))"
proof -
  have nz: "x \<noteq> 0" using assms(1) by (smt (verit) zero_less_power_int abs_zero)
  have b: "binade x = e" by (rule binade_normal[OF assms(1,2,3)])
  show ?thesis
    using round_double_finite[OF nz] assms(4,5) by (simp add: b quantum_def)
qed

lemma round_double_subnormal:
  assumes "x \<noteq> 0" and "\<bar>x\<bar> < 2 powi (- 1022)" and "rhe (x / 2 powi (- 1074)) = n"
  shows "round_double x = Fin (of_int n * 2 powi (- 1074))"
proof -
  have b: "binade x = - 1022" by (rule binade_subnormal[OF assms(1,2)])
  show ?thesis
    using round_double_finite[OF assms(1)] assms(3) by (simp add: b quantum_def)
qed


lemma quantum_nz [simp]: "quantum x \<noteq> 0"
  using quantum_pos[of x] by linarith

lemma quantum_nonneg [simp]: "0 \<le> quantum x"
  using quantum_pos[of x] by linarith

lemma half_quantum_le:
  assumes "x \<noteq> 0"
  shows "quantum x / 2 \<le> \<bar>x\<bar> / 2 ^ 53 + 1 / 2 ^ 1075"
proof -
  from binade_le_abs[OF assms] show ?thesis
  proof
    assume b: "binade x = - 1022"
    have "quantum x = 2 powi (- 1074)" by (simp add: quantum_def b)
    also have "\<dots> = 1 / 2 ^ 1074" by (simp add: power_int_minus_divide)
    finally have "quantum x / 2 = 1 / 2 ^ 1075" by simp
    then show ?thesis by simp
  next
    assume le: "2 powi (binade x) \<le> \<bar>x\<bar>"
    have "2 ^ 52 * quantum x = 2 powi 52 * 2 powi (binade x - 52)"
      by (simp add: quantum_def)
    also have "\<dots> = 2 powi (52 + (binade x - 52))"
      by (rule power_int_add[symmetric]) simp
    finally have "2 ^ 52 * quantum x = 2 powi (binade x)" by simp
    with le have "2 ^ 52 * quantum x \<le> \<bar>x\<bar>" by simp
    then have "quantum x / 2 \<le> \<bar>x\<bar> / 2 ^ 53" by simp
    then show ?thesis by (simp add: add_increasing2)
  qed
qed

lemma rounded_error:
  "\<bar>of_int (rhe (x / quantum x)) * quantum x - x\<bar> \<le> quantum x / 2"
proof -
  have q: "0 < quantum x" by simp
  have "of_int (rhe (x / quantum x)) * quantum x - x
        = (of_int (rhe (x / quantum x)) - x / quantum x) * quantum x"
    using q by (simp add: algebra_simps)
  then have "\<bar>of_int (rhe (x / quantum x)) * quantum x - x\<bar>
        = \<bar>of_int (rhe (x / quantum x)) - x / quantum x\<bar> * quantum x"
    by (simp add: abs_mult)
  also have "\<dots> \<le> 1 / 2 * quantum x"
    using rhe_error[of "x / quantum x"] q by (intro mult_right_mono) auto
  finally show ?thesis by simp
qed

lemma binade_le_1022:
  assumes "x \<noteq> 0" and "\<bar>x\<bar> < 2 ^ 1023"
  shows "binade x \<le> 1022"
proof -
  have pos: "0 < \<bar>x\<bar>" using assms(1) by simp
  have "\<bar>x\<bar> < 2 powi 1023" using assms(2) by simp
  then have "log 2 \<bar>x\<bar> < of_int 1023"
    using less_powi_iff_log[OF pos, of 1023] by blast
  then have "\<lfloor>log 2 \<bar>x\<bar>\<rfloor> < 1023" by (simp add: floor_less_iff)
  then show ?thesis by (simp add: binade_def)
qed

lemma round_double_close:
  assumes "\<bar>x\<bar> < 2 ^ 1023"
  shows "\<exists>r. round_double x = Fin r \<and> \<bar>r - x\<bar> \<le> \<bar>x\<bar> / 2 ^ 53 + 1 / 2 ^ 1075
             \<and> (0 \<le> x \<longrightarrow> 0 \<le> r) \<and> (x \<le> 0 \<longrightarrow> r \<le> 0)"
proof (cases "x = 0")
  case True
  then show ?thesis by simp
next
  case False
  define r where "r = of_int (rhe (x / quantum x)) * quantum x"
  have q: "0 < quantum x" by simp
  have 1: "round_double x = Fin r"
    unfolding r_def by (rule round_double_finite[OF False binade_le_1022[OF False assms]])
  have 2: "\<bar>r - x\<bar> \<le> \<bar>x\<bar> / 2 ^ 53 + 1 / 2 ^ 1075"
    unfolding r_def using rounded_error[of x] half_quantum_le[OF False] by linarith
  have 3: "0 \<le> r" if "0 \<le> x"
  proof -
    have "0 \<le> x / quantum x" using that q by (simp add: divide_nonneg_pos)
    then have "0 \<le> rhe (x / quantum x)" by (rule rhe_nonneg)
    then show ?thesis unfolding r_def using q by simp
  qed
  have 4: "r \<le> 0" if "x \<le> 0"
  proof -
    have "x / quantum x \<le> of_int 0" using that q by (simp add: divide_nonpos_pos)
    then have "rhe (x / quantum x) \<le> 0" by (rule rhe_le)
    then show ?thesis unfolding r_def using q by (simp add: mult_le_0_iff)
  qed
  show ?thesis using 1 2 3 4 by blast
qed

lemma round_double_exact:
  assumes "x / quantum x = of_int n" and "\<bar>x\<bar> < 2 ^ 1024"
  shows "round_double x = Fin x"
proof (cases "x = 0")
  case True
  then show ?thesis by simp
next
  case False
  have r: "rhe (x / quantum x) = n" by (simp add: assms(1))
  have "x = of_int n * quantum x"
    using assms(1) by (simp add: field_simps)
  then have "of_int (rhe (x / quantum x)) * quantum x = x"
    by (simp only: r)
  then show ?thesis
    using False assms(2) by (simp add: round_double_def Let_def abs_less_iff not_le)
qed

lemma powi_nonneg_int: "0 \<le> j \<Longrightarrow> (2::real) powi j = of_int (2 ^ nat j)"
  by (simp add: power_int_nonneg_exp)

lemma double_intro:
  assumes x: "x = of_int m * 2 powi k" and m: "\<bar>m\<bar> < 2 ^ 53" and k: "- 1074 \<le> k"
    and b: "\<bar>x\<bar> < 2 ^ 1024"
  shows "round_double x = Fin x"
proof (cases "x = 0")
  case True
  then show ?thesis by simp
next
  case False
  have le: "binade x - 52 \<le> k"
  proof -
    from binade_le_abs[OF False] show ?thesis
    proof
      assume "binade x = - 1022"
      then show ?thesis using k by simp
    next
      assume a: "2 powi (binade x) \<le> \<bar>x\<bar>"
      have "\<bar>of_int m :: real\<bar> < 2 ^ 53"
        using m by (metis of_int_abs of_int_less_iff of_int_numeral of_int_power)
      then have "\<bar>x\<bar> < 2 ^ 53 * 2 powi k"
        unfolding x by (simp add: abs_mult)
      also have "(2::real) ^ 53 * 2 powi k = 2 powi (53 + k)"
        by (subst power_int_add) auto
      finally have "(2::real) powi (binade x) < 2 powi (53 + k)" using a by linarith
      then have "binade x < 53 + k"
      proof (rule contrapos_pp)
        assume "\<not> binade x < 53 + k"
        then have "53 + k \<le> binade x" by simp
        then have "(2::real) powi (53 + k) \<le> 2 powi (binade x)"
          by (intro power_int_increasing) auto
        then show "\<not> (2::real) powi (binade x) < 2 powi (53 + k)" by simp
      qed
      then show ?thesis by simp
    qed
  qed
  define j where "j = k - (binade x - 52)"
  have j: "0 \<le> j" using le by (simp add: j_def)
  have "x / quantum x = of_int m * (2 powi k / 2 powi (binade x - 52))"
    by (simp add: x quantum_def)
  also have "2 powi k / 2 powi (binade x - 52) = (2::real) powi j"
    unfolding j_def by (subst power_int_diff) auto
  also have "\<dots> = of_int (2 ^ nat j)" by (rule powi_nonneg_int[OF j])
  finally have "x / quantum x = of_int (m * 2 ^ nat j)" by simp
  then show ?thesis using b by (rule round_double_exact)
qed

lemma double_grid:
  assumes "round_double x = Fin x"
  shows "\<exists>n. x = of_int n * 2 powi (- 1074)"
proof (cases "x = 0")
  case True
  then have "x = of_int 0 * 2 powi (- 1074)" by simp
  then show ?thesis by blast
next
  case False
  define n where "n = rhe (x / quantum x)"
  have "x = of_int n * quantum x"
    using assms False unfolding n_def
    by (simp add: round_double_def Let_def split: if_splits)
  moreover have "quantum x = of_int (2 ^ nat (binade x + 1022)) * 2 powi (- 1074)"
  proof -
    have j: "0 \<le> binade x + 1022" using binade_ge[of x] by simp
    have "(2::real) powi (binade x - 52) = 2 powi ((binade x + 1022) + (- 1074))" by simp
    also have "\<dots> = 2 powi (binade x + 1022) * 2 powi (- 1074)"
      by (rule power_int_add) simp
    finally show ?thesis
      by (simp only: quantum_def powi_nonneg_int[OF j])
  qed
  ultimately have "x = of_int (n * 2 ^ nat (binade x + 1022)) * 2 powi (- 1074)"
    by simp
  then show ?thesis by blast
qed

lemma sub_exact_small:
  assumes a: "round_double a = Fin a" and b: "round_double b = Fin b"
    and s: "\<bar>b - a\<bar> < 2 powi (- 1022)"
  shows "round_double (b - a) = Fin (b - a)"
proof -
  obtain na where na: "a = of_int na * 2 powi (- 1074)" using double_grid[OF a] by blast
  obtain nb where nb: "b = of_int nb * 2 powi (- 1074)" using double_grid[OF b] by blast
  have d: "b - a = of_int (nb - na) * 2 powi (- 1074)"
    by (simp add: na nb algebra_simps)
  have "\<bar>of_int (nb - na) :: real\<bar> * 2 powi (- 1074) < 2 powi (- 1022)"
    using s unfolding d by (simp add: abs_mult)
  then have "\<bar>of_int (nb - na) :: real\<bar> < 2 powi (- 1022) / 2 powi (- 1074)"
    by (simp add: pos_less_divide_eq)
  also have "(2::real) powi (- 1022) / 2 powi (- 1074) = 2 powi 52"
    by (subst power_int_diff[symmetric]) auto
  finally have "\<bar>of_int (nb - na) :: real\<bar> < 2 ^ 53" by simp
  then have m: "\<bar>nb - na\<bar> < 2 ^ 53"
    by (metis of_int_abs of_int_less_iff of_int_numeral of_int_power)
  have "\<bar>b - a\<bar> < 1" using s by (simp add: power_int_minus_divide) 
  then have "\<bar>b - a\<bar> < 2 ^ 1024" by (smt (verit) one_le_numeral one_le_power)
  then show ?thesis
    by (intro double_intro[OF d m]) auto
qed

lemma sub_close:
  assumes a: "round_double a = Fin a" and b: "round_double b = Fin b"
    and s: "\<bar>b - a\<bar> < 2 ^ 1023"
  shows "\<exists>d. round_double (b - a) = Fin d \<and> \<bar>d - (b - a)\<bar> \<le> \<bar>b - a\<bar> / 2 ^ 53"
proof (cases "\<bar>b - a\<bar> < 2 powi (- 1022)")
  case True
  show ?thesis using sub_exact_small[OF a b True] by simp
next
  case False
  then have nz: "b - a \<noteq> 0" by (smt (verit) zero_less_power_int abs_zero)
  define r where "r = of_int (rhe ((b - a) / quantum (b - a))) * quantum (b - a)"
  have 1: "round_double (b - a) = Fin r"
    unfolding r_def by (rule round_double_finite[OF nz binade_le_1022[OF nz s]])
  have "2 powi (binade (b - a)) \<le> \<bar>b - a\<bar>"
  proof -
    from binade_le_abs[OF nz] show ?thesis
    proof
      assume "binade (b - a) = - 1022"
      then show ?thesis using False by simp
    qed
  qed
  moreover have "2 ^ 52 * quantum (b - a) = 2 powi (binade (b - a))"
  proof -
    have "2 ^ 52 * quantum (b - a) = 2 powi 52 * 2 powi (binade (b - a) - 52)"
      by (simp add: quantum_def)
    also have "\<dots> = 2 powi (52 + (binade (b - a) - 52))"
      by (rule power_int_add[symmetric]) simp
    finally show ?thesis by simp
  qed
  ultimately have "quantum (b - a) / 2 \<le> \<bar>b - a\<bar> / 2 ^ 53" by simp
  then have "\<bar>r - (b - a)\<bar> \<le> \<bar>b - a\<bar> / 2 ^ 53"
    unfolding r_def using rounded_error[of "b - a"] by linarith
  then show ?thesis using 1 by blast
qed


section \<open>Facts about the two loops and the callback\<close>

lemma map_update_same: "(map f ms)[i := f (ms ! i)] = map f ms"
  by (metis list_update_id map_update)

lemma updateJoints_length:
  "length (jointsAfter (updateJoints es k ms)) = length ms"
  by (induction es k ms rule: updateJoints.induct) (simp_all add: jointsAfter_def)

lemma updateJoints_geometry:
  "map geometry (jointsAfter (updateJoints es k ms)) = map geometry ms"
  by (induction es k ms rule: updateJoints.induct) (simp_all add: jointsAfter_def map_update map_update_same)

lemma updateJoints_color:
  "map color (jointsAfter (updateJoints es k ms)) = map color ms"
  by (induction es k ms rule: updateJoints.induct) (simp_all add: jointsAfter_def map_update map_update_same)

lemma updateJoints_nth:
  "updateJoints es k ms = Inr ms' \<Longrightarrow> j < length ms \<Longrightarrow>
   ms' ! j =
     (if k \<le> j \<and> j < k + length es
      then (case es ! (j - k) of
              Present l \<Rightarrow> (ms ! j) \<lparr> position := toRenderSpace l, visible := True \<rparr>
            | _ \<Rightarrow> ms ! j)
      else ms ! j)"
proof (induction es k ms arbitrary: ms' rule: updateJoints.induct)
  case (1 index ms)
  then show ?case by auto
next
  case (2 es index ms)
  then show ?case
    by (auto simp: nth_Cons' Suc_diff_le split: entry.splits)
next
  case (3 es index ms)
  then show ?case 
    by (auto simp: nth_Cons' Suc_diff_le split: entry.splits if_splits)
next
  case (4 l es index ms)
  then show ?case
    by (auto simp: nth_Cons' Suc_diff_le nth_list_update split: entry.splits if_splits)
qed

lemma updateJoints_total:
  "Nullish \<notin> set es \<Longrightarrow> \<exists>ms'. updateJoints es k ms = Inr ms'"
  by (induction es k ms rule: updateJoints.induct) simp_all

lemma updateBones_length:
  "length (updateBones eps lms cs k bs) = length bs"
  by (induction eps lms cs k bs rule: updateBones.induct)
     (simp_all split: entry.splits)

lemma updateBone_geometry: "geometry (updateBone eps m p q) = geometry m"
  and updateBone_color: "color (updateBone eps m p q) = color m"
  and updateBone_visible: "visible (updateBone eps m p q) = True"
  by (simp_all add: updateBone_def Let_def)

lemma updateBones_nth:
  "j < length bs \<Longrightarrow>
   updateBones eps lms cs k bs ! j =
     (if k \<le> j \<and> j < k + length cs
      then (case (at_index lms (fst (cs ! (j - k))), at_index lms (snd (cs ! (j - k)))) of
              (Present s, Present e) \<Rightarrow>
                 updateBone eps (bs ! j) (toRenderSpace s) (toRenderSpace e)
            | _ \<Rightarrow> bs ! j)
      else bs ! j)"
proof (induction eps lms cs k bs rule: updateBones.induct)
  case (1 eps lms index bs)
  then show ?case by auto
next
  case (2 eps lms startIdx endIdx cs index bs)
  then show ?case
    by (auto simp: nth_Cons' Suc_diff_le nth_list_update split: entry.splits if_splits)
qed

lemma onResults_returns:
  assumes "poseWorldLandmarks res = Some lms" and "Nullish \<notin> set lms"
  shows "returned (onResults eps conns st res)"
proof -
  obtain js where "updateJoints lms 0 (jointMeshes st) = Inr js"
    using updateJoints_total[OF assms(2)] by blast
  then show ?thesis using assms(1) by (simp add: onResults_def returned_def)
qed

lemma onResults_None_returns:
  "poseWorldLandmarks res = None \<Longrightarrow> returned (onResults eps conns st res)"
  by (simp add: onResults_def returned_def)

lemma jointMeshes_after:
  "poseWorldLandmarks res = Some lms \<Longrightarrow>
   jointMeshes (sceneAfter (onResults eps conns st res)) =
   jointsAfter (updateJoints lms 0 (jointMeshes st))"
  by (simp add: onResults_def sceneAfter_def jointsAfter_def split: sum.splits prod.splits)

lemma jointMeshes_after_None:
  "poseWorldLandmarks res = None \<Longrightarrow>
   jointMeshes (sceneAfter (onResults eps conns st res)) = map hide (jointMeshes st)"
  by (simp add: onResults_def sceneAfter_def)

lemma jointMeshes_after_nth:
  assumes "poseWorldLandmarks res = Some lms" and "Nullish \<notin> set lms"
    and "j < length (jointMeshes st)"
  shows "jointMeshes (sceneAfter (onResults eps conns st res)) ! j =
         (case at_index lms j of
            Present l \<Rightarrow> (jointMeshes st ! j) \<lparr> position := toRenderSpace l, visible := True \<rparr>
          | _ \<Rightarrow> jointMeshes st ! j)"
proof -
  obtain js where js: "updateJoints lms 0 (jointMeshes st) = Inr js"
    using updateJoints_total[OF assms(2)] by blast
  have "jointMeshes (sceneAfter (onResults eps conns st res)) = js"
    using js assms(1) by (simp add: onResults_def sceneAfter_def)
  then show ?thesis
    using updateJoints_nth[OF js assms(3)] by (simp add: at_index_def)
qed

lemma boneMeshes_after:
  assumes "poseWorldLandmarks res = Some lms" and "Nullish \<notin> set lms"
  shows "boneMeshes (sceneAfter (onResults eps conns st res)) =
         updateBones eps lms conns 0 (boneMeshes st)"
proof -
  obtain js where "updateJoints lms 0 (jointMeshes st) = Inr js"
    using updateJoints_total[OF assms(2)] by blast
  then show ?thesis using assms(1) by (simp add: onResults_def sceneAfter_def)
qed

lemma boneMeshes_after_None:
  "poseWorldLandmarks res = None \<Longrightarrow>
   boneMeshes (sceneAfter (onResults eps conns st res)) = map hide (boneMeshes st)"
  by (simp add: onResults_def sceneAfter_def)

lemma boneMeshes_after_length:
  "length (boneMeshes (sceneAfter (onResults eps conns st res))) = length (boneMeshes st)"
  by (simp add: onResults_def sceneAfter_def updateBones_length
           split: option.splits sum.splits prod.splits)

lemma jointMeshes_after_length:
  "length (jointMeshes (sceneAfter (onResults eps conns st res))) = length (jointMeshes st)"
  by (cases "poseWorldLandmarks res")
     (simp_all add: jointMeshes_after jointMeshes_after_None updateJoints_length)

lemma jointMeshes_after_geometry:
  "map geometry (jointMeshes (sceneAfter (onResults eps conns st res))) =
   map geometry (jointMeshes st)"
  by (cases "poseWorldLandmarks res")
     (simp_all add: jointMeshes_after jointMeshes_after_None updateJoints_geometry hide_def comp_def)

lemma jointMeshes_after_color:
  "map color (jointMeshes (sceneAfter (onResults eps conns st res))) =
   map color (jointMeshes st)"
  by (cases "poseWorldLandmarks res")
     (simp_all add: jointMeshes_after jointMeshes_after_None updateJoints_color hide_def comp_def)

lemma reachable_invariant:
  "reachable eps conns st \<Longrightarrow>
   length (jointMeshes st) = 33 \<and> length (boneMeshes st) = length conns \<and>
   map geometry (jointMeshes st) =
     map (\<lambda>i. SphereGeometry (getScaleForLandmark (int i)) 16 16) [0 ..< 33] \<and>
   map color (jointMeshes st) = map (\<lambda>i. getColorForLandmark (int i)) [0 ..< 33]"
proof (induction rule: reachable.induct)
  case init
  show ?case
    by (simp add: initScene_def createBones_def createJoint_def Mesh_def comp_def)
next
  case (step st res)
  then show ?case
    by (simp only: jointMeshes_after_length boneMeshes_after_length
                   jointMeshes_after_geometry jointMeshes_after_color) 
qed

lemma updateJoints_nth_any:
  "j < length ms \<Longrightarrow>
   jointsAfter (updateJoints es k ms) ! j = ms ! j
   \<or> (k \<le> j \<and> j < k + length es
      \<and> (\<exists>l. es ! (j - k) = Present l
             \<and> jointsAfter (updateJoints es k ms) ! j
                 = (ms ! j) \<lparr> position := toRenderSpace l, visible := True \<rparr>))"
proof (induction es k ms rule: updateJoints.induct)
  case (1 index ms)
  then show ?case by (simp add: jointsAfter_def)
next
  case (2 es index ms)
  then show ?case
    by (auto simp: nth_Cons' Suc_diff_le)
next
  case (3 es index ms)
  then show ?case
    by (auto simp: nth_Cons' Suc_diff_le jointsAfter_def)
next
  case (4 l es index ms)
  show ?case
  proof (cases "index < length ms")
    case True
    let ?ms = "ms [index := (ms ! index) \<lparr> position := toRenderSpace l, visible := True \<rparr>]"
    have j: "j < length ?ms" using 4(3) by simp
    from 4(1)[OF True j] True show ?thesis
      using 4(3) by (auto simp: nth_Cons' Suc_diff_le nth_list_update split: if_splits)
  next
    case False
    from 4(2)[OF False 4(3)] False show ?thesis
      by (auto simp: nth_Cons' Suc_diff_le)
  qed
qed

lemma updateJoints_total_present:
  "(\<And>n. n < length es \<Longrightarrow> k + n < length ms \<Longrightarrow> es ! n \<noteq> Nullish) \<Longrightarrow>
   \<exists>ms'. updateJoints es k ms = Inr ms'"
proof (induction es k ms rule: updateJoints.induct)
  case (1 index ms)
  then show ?case by simp
next
  case (2 es index ms)
  have "\<exists>ms'. updateJoints es (Suc index) ms = Inr ms'"
  proof (rule 2(1))
    fix n assume "n < length es" "Suc index + n < length ms"
    then show "es ! n \<noteq> Nullish" using 2(2)[of "Suc n"] by simp
  qed
  then show ?case by simp
next
  case (3 es index ms)
  have nl: "\<not> index < length ms" using 3(2)[of 0] by auto
  have "\<exists>ms'. updateJoints es (Suc index) ms = Inr ms'"
  proof (rule 3(1)[OF nl])
    fix n assume "n < length es" "Suc index + n < length ms"
    then show "es ! n \<noteq> Nullish" using 3(2)[of "Suc n"] by simp
  qed
  then show ?case using nl by simp
next
  case (4 l es index ms)
  show ?case
  proof (cases "index < length ms")
    case True
    have "\<exists>ms'. updateJoints es (Suc index)
             (ms [index := (ms ! index) \<lparr> position := toRenderSpace l, visible := True \<rparr>]) = Inr ms'"
    proof (rule 4(1)[OF True])
      fix n assume "n < length es"
        "Suc index + n < length (ms [index := (ms ! index) \<lparr> position := toRenderSpace l, visible := True \<rparr>])"
      then show "es ! n \<noteq> Nullish" using 4(3)[of "Suc n"] by simp
    qed
    then show ?thesis using True by simp
  next
    case False
    have "\<exists>ms'. updateJoints es (Suc index) ms = Inr ms'"
    proof (rule 4(2)[OF False])
      fix n assume "n < length es" "Suc index + n < length ms"
      then show "es ! n \<noteq> Nullish" using 4(3)[of "Suc n"] by simp
    qed
    then show ?thesis using False by simp
  qed
qed

lemma all_present_nth:
  "all_present lms n \<Longrightarrow> j < n \<Longrightarrow> \<exists>l. at_index lms j = Present l"
proof -
  assume "all_present lms n" and "j < n"
  then have "entry_present (at_index lms j)"
    by (simp add: all_present_def list_all_iff)
  then show ?thesis
    by (cases "at_index lms j") (simp_all add: entry_present_def)
qed

lemma onResults_returns_present:
  assumes "poseWorldLandmarks res = Some lms" and "all_present lms (length (jointMeshes st))"
  shows "\<exists>js. updateJoints lms 0 (jointMeshes st) = Inr js"
proof (rule updateJoints_total_present)
  fix n assume n: "n < length lms" "0 + n < length (jointMeshes st)"
  then obtain l where "at_index lms n = Present l"
    using all_present_nth[OF assms(2), of n] by auto
  then show "lms ! n \<noteq> Nullish" using n by (simp add: at_index_def)
qed

lemma jointMeshes_after_any:
  assumes "poseWorldLandmarks res = Some lms" and "i < length (jointMeshes st)"
  shows "jointMeshes (sceneAfter (onResults eps conns st res)) ! i = jointMeshes st ! i
         \<or> (\<exists>l. at_index lms i = Present l
               \<and> jointMeshes (sceneAfter (onResults eps conns st res)) ! i
                  = (jointMeshes st ! i) \<lparr> position := toRenderSpace l, visible := True \<rparr>)"
  using updateJoints_nth_any[OF assms(2), of lms 0]
  unfolding jointMeshes_after[OF assms(1)] by (auto simp: at_index_def)

lemma jointMeshes_after_present:
  assumes "poseWorldLandmarks res = Some lms" and "all_present lms (length (jointMeshes st))"
    and "i < length (jointMeshes st)"
  shows "returned (onResults eps conns st res)
       \<and> (\<exists>l. at_index lms i = Present l
               \<and> jointMeshes (sceneAfter (onResults eps conns st res)) ! i
                  = (jointMeshes st ! i) \<lparr> position := toRenderSpace l, visible := True \<rparr>)"
proof -
  obtain js where js: "updateJoints lms 0 (jointMeshes st) = Inr js"
    using onResults_returns_present[OF assms(1,2)] by blast
  obtain l where l: "at_index lms i = Present l"
    using all_present_nth[OF assms(2,3)] by blast
  then have il: "i < length lms" by (auto simp: at_index_def split: if_splits)
  have r: "returned (onResults eps conns st res)"
    using js assms(1) by (simp add: onResults_def returned_def)
  have "jointMeshes (sceneAfter (onResults eps conns st res)) = js"
    using js assms(1) by (simp add: onResults_def sceneAfter_def)
  then show ?thesis
    using updateJoints_nth[OF js assms(3)] l il r by (simp add: at_index_def)
qed

section \<open>Steps of the bone solver\<close>

lemma Rep_double_fixed [simp]: "round_double (Rep_double x) = Fin (Rep_double x)"
  using Rep_double[of x] by simp

lemma round_double_1 [simp]: "round_double 1 = Fin 1"
  by (rule double_intro[where m = 1 and k = 0]) simp_all

lemma round_double_half [simp]: "round_double (1 / 2) = Fin (1 / 2)"
  by (rule double_intro[where m = 1 and k = "- 1"]) (simp_all add: power_int_minus_divide)

lemma jsub_fin: "jsub (Fin a) (Fin b) = round_double (a - b)"
  by (simp add: jsub_def)

lemma jneg_jneg [simp]: "jneg (jneg x) = x"
  by (cases x) simp_all

lemma jadd_jneg: "jadd (jneg x) (jneg y) = jneg (jadd x y)"
proof (cases x)
  case (Fin a)
  then show ?thesis
  proof (cases y)
    case (Fin b)
    have "round_double (- a + - b) = jneg (round_double (a + b))"
      using round_double_uminus[of "a + b"] by simp
    then show ?thesis using \<open>x = Fin a\<close> Fin by simp
  qed simp_all
next
  case PInf then show ?thesis by (cases y) simp_all
next
  case NInf then show ?thesis by (cases y) simp_all
next
  case NaN then show ?thesis by simp
qed

lemma jsub_swap: "jsub a b = jneg (jsub b a)"
  unfolding jsub_def using jadd_jneg[of b "jneg a"]
  by (cases a; cases b) (simp_all add: add.commute)

lemma jmul_jneg_jneg: "jmul (jneg x) (jneg y) = jmul x y"
  by (cases x; cases y) auto

lemma vlength_subVectors_swap: "vlength (subVectors a b) = vlength (subVectors b a)"
proof -
  have "\<And>s t. jmul (jsub s t) (jsub s t) = jmul (jsub t s) (jsub t s)"
    by (metis jsub_swap jmul_jneg_jneg)
  then show ?thesis by (simp add: vlength_def subVectors_def)
qed

lemma updateBone_scale_y:
  "vy (scale (updateBone eps bone p1 p2)) = vlength (subVectors p2 p1)"
  by (simp add: updateBone_def Let_def)

lemma updateBone_position:
  "position (updateBone eps bone p1 p2) =
     vadd p1 (multiplyScalar (subVectors p2 p1) (Fin 0.5))"
  by (simp add: updateBone_def Let_def)

lemma updateBone_quaternion:
  "quaternion (updateBone eps bone p1 p2) =
     setFromUnitVectors eps (Vector3 (Fin 0) (Fin 1) (Fin 0))
       (vnormalize (multiplyScalar (subVectors p2 p1) (Fin 0.5)))"
  by (simp add: updateBone_def Let_def)

lemma half_turn_quaternion:
  "qnormalize (Quaternion (Fin 0) (Fin 0) (Fin 1) (Fin 0)) = fin4 (0, 0, 1, 0)"
  by (simp add: qnormalize_def qlength_def fin4_def Let_def)

lemma identity_quaternion:
  "qnormalize (Quaternion (Fin 0) (Fin 0) (Fin 0) (Fin 1)) = fin4 (0, 0, 0, 1)"
  by (simp add: qnormalize_def qlength_def fin4_def Let_def)


lemma zero_direction:
  "multiplyScalar (subVectors (fin3 a) (fin3 a)) (Fin 0.5) = Vector3 (Fin 0) (Fin 0) (Fin 0)"
  by (cases a) (simp add: fin3_def vec_of_def real3_def subVectors_def jsub_fin multiplyScalar_def)

lemma vlength_zero: "vlength (Vector3 (Fin 0) (Fin 0) (Fin 0)) = Fin 0"
  by (simp add: vlength_def)

lemma vnormalize_zero:
  "vnormalize (Vector3 (Fin 0) (Fin 0) (Fin 0)) = Vector3 (Fin 0) (Fin 0) (Fin 0)"
  by (simp add: vnormalize_def normalize_divisor_def vlength_zero jor_def truthy_def
                divideScalar_def multiplyScalar_def)

lemma raw_zero:
  "setFromUnitVectors_raw eps (Vector3 (Fin 0) (Fin 1) (Fin 0)) (Vector3 (Fin 0) (Fin 0) (Fin 0)) =
     (if 1 < eps then Quaternion (Fin 0) (Fin 0) (Fin 1) (Fin 0)
      else Quaternion (Fin 0) (Fin 0) (Fin 0) (Fin 1))"
  by (simp add: setFromUnitVectors_raw_def dot_def jsub_fin Let_def)

lemma real3_dpoint_of:
  assumes "round_double x = Fin x" and "round_double y = Fin y" and "round_double z = Fin z"
  shows "real3 (dpoint_of (x, y, z)) = (x, y, z)"
  using assms by (simp add: dpoint_of_def real3_def Abs_double_inverse)

lemma fin3_dpoint_of:
  assumes "round_double x = Fin x" and "round_double y = Fin y" and "round_double z = Fin z"
  shows "fin3 (dpoint_of (x, y, z)) = Vector3 (Fin x) (Fin y) (Fin z)"
  by (simp add: fin3_def real3_dpoint_of[OF assms] vec_of_def)

lemma position_coordinates:
  "position (updateBone eps bone (Vector3 ax ay az) (Vector3 bx by bz)) =
     Vector3 (jadd ax (jmul (jsub bx ax) (Fin 0.5)))
             (jadd ay (jmul (jsub by ay) (Fin 0.5)))
             (jadd az (jmul (jsub bz az) (Fin 0.5)))"
  by (simp add: updateBone_position vadd_def multiplyScalar_def subVectors_def)

section \<open>Non-finite coordinates\<close>

lemma jneg_finite [simp]: "finite_num (jneg x) = finite_num x"
  by (cases x) (simp_all add: finite_num_def)

lemma jadd_not_finite: "\<not> finite_num x \<or> \<not> finite_num y \<Longrightarrow> \<not> finite_num (jadd x y)"
  by (cases x; cases y) (simp_all add: finite_num_def)

lemma jsub_not_finite: "\<not> finite_num x \<or> \<not> finite_num y \<Longrightarrow> \<not> finite_num (jsub x y)"
  unfolding jsub_def by (rule jadd_not_finite) simp

lemma jmul_not_finite: "\<not> finite_num x \<or> \<not> finite_num y \<Longrightarrow> \<not> finite_num (jmul x y)"
  by (cases x; cases y) (simp_all add: finite_num_def)

lemma jsqrt_not_finite: "\<not> finite_num x \<Longrightarrow> \<not> finite_num (jsqrt x)"
  by (cases x) (simp_all add: finite_num_def)

lemma toRenderSpace_finite [simp]: "finite_vec (toRenderSpace l) = finite_landmark l"
  by (simp add: finite_vec_def finite_landmark_def toRenderSpace_def)

lemma vlength_not_finite:
  assumes "\<not> finite_vec p \<or> \<not> finite_vec q"
  shows "\<not> finite_num (vlength (subVectors q p))"
proof -
  from assms consider
      "\<not> finite_num (jsub (vx q) (vx p))" | "\<not> finite_num (jsub (vy q) (vy p))"
    | "\<not> finite_num (jsub (vz q) (vz p))"
    unfolding finite_vec_def using jsub_not_finite by blast
  then show ?thesis
    unfolding vlength_def subVectors_def vec3.sel
    by cases (intro jsqrt_not_finite jadd_not_finite jmul_not_finite disjI1 disjI2;
              assumption)+
qed

lemma position_not_finite:
  assumes "\<not> finite_vec p \<or> \<not> finite_vec q"
  shows "\<not> finite_vec (vadd p (multiplyScalar (subVectors q p) (Fin 0.5)))"
proof -
  have c: "\<not> finite_num (jadd s (jmul (jsub t s) (Fin 0.5)))"
    if "\<not> finite_num s \<or> \<not> finite_num t" for s t
  proof -
    from that have "\<not> finite_num (jsub t s)" by (intro jsub_not_finite) blast
    then have "\<not> finite_num (jmul (jsub t s) (Fin 0.5))" by (intro jmul_not_finite) blast
    then show ?thesis by (intro jadd_not_finite) blast
  qed
  from assms show ?thesis
    unfolding finite_vec_def vadd_def multiplyScalar_def subVectors_def vec3.sel
    using c by blast
qed

lemma updateBone_not_finite:
  assumes "\<not> finite_vec p \<or> \<not> finite_vec q"
  shows "\<not> finite_vec (position (updateBone eps bone p q))"
    and "\<not> finite_num (vy (scale (updateBone eps bone p q)))"
  unfolding updateBone_position updateBone_scale_y
  using position_not_finite[OF assms] vlength_not_finite[OF assms] by blast+

section \<open>The error of the midpoint\<close>

lemma eta_nonneg: "0 \<le> eta" by (simp add: eta_def)

lemma eta_4: "4 * eta = 1 / 2 ^ 1073" by (simp add: eta_def)

lemma p53: "(2::real) ^ 53 = 9007199254740992" by simp

lemma p51: "(2::real) ^ 51 = 2251799813685248" by simp

lemma round_close:
  assumes "\<bar>x\<bar> < 2 ^ 1023"
  obtains r where "round_double x = Fin r" and "\<bar>r - x\<bar> \<le> \<bar>x\<bar> / 9007199254740992 + eta"
    and "0 \<le> x \<Longrightarrow> 0 \<le> r"
  using round_double_close[OF assms] unfolding eta_def p53 by blast

lemma sub_close':
  assumes "round_double a = Fin a" and "round_double b = Fin b" and "\<bar>b - a\<bar> < 2 ^ 1023"
  obtains d where "round_double (b - a) = Fin d"
    and "\<bar>d - (b - a)\<bar> \<le> \<bar>b - a\<bar> / 9007199254740992"
  using sub_close[OF assms] unfolding p53 by blast

lemma midpoint_arith:
  fixes A e1 e2 e3 X Y Z :: real
  assumes "e1 \<le> X / 9007199254740992" and "X \<le> A"
    and "e2 \<le> Y / 9007199254740992 + eta" and "Y \<le> (X + e1) / 2"
    and "e3 \<le> Z / 9007199254740992 + eta" and "Z \<le> A + Y + e2"
    and "0 \<le> A" and "0 \<le> X" and "0 \<le> Y" and "0 \<le> Z"
  shows "e3 + e2 + e1 / 2 \<le> A / 2251799813685248 + 4 * eta"
  using assms eta_nonneg by argo

lemma midpoint_close:
  assumes a: "round_double a = Fin a" and b: "round_double b = Fin b"
    and ra: "\<bar>a\<bar> \<le> 2 ^ 500" and rb: "\<bar>b\<bar> \<le> 2 ^ 500"
  shows "\<exists>p. jadd (Fin a) (jmul (jsub (Fin b) (Fin a)) (Fin 0.5)) = Fin p
             \<and> \<bar>p - (a + 0.5 * (b - a))\<bar> \<le> (\<bar>a\<bar> + \<bar>b\<bar>) / 2 ^ 51 + 1 / 2 ^ 1073"
proof -
  have big: "(2::real) ^ 500 * 8 \<le> 2 ^ 1023 / 2" "0 < (2::real) ^ 1023" "1 \<le> (2::real) ^ 500"
    by simp_all
  have eta_small: "eta \<le> 1" by (simp add: eta_def)
  have tri: "\<bar>b - a\<bar> \<le> \<bar>a\<bar> + \<bar>b\<bar>" by argo
  have r1: "\<bar>b - a\<bar> < 2 ^ 1023" using tri ra rb big by argo
  obtain d where d: "round_double (b - a) = Fin d"
    and de: "\<bar>d - (b - a)\<bar> \<le> \<bar>b - a\<bar> / 9007199254740992"
    using sub_close'[OF a b r1] by blast
  have dabs: "\<bar>d / 2\<bar> \<le> (\<bar>b - a\<bar> + \<bar>d - (b - a)\<bar>) / 2" by argo
  have dabs2: "\<bar>d / 2\<bar> \<le> \<bar>a\<bar> + \<bar>b\<bar>" using dabs de tri by argo
  have r2: "\<bar>d / 2\<bar> < 2 ^ 1023" using dabs2 ra rb big by argo
  obtain h where h: "round_double (d / 2) = Fin h"
    and he: "\<bar>h - d / 2\<bar> \<le> \<bar>d / 2\<bar> / 9007199254740992 + eta"
    using round_close[OF r2] by blast
  have habs: "\<bar>a + h\<bar> \<le> (\<bar>a\<bar> + \<bar>b\<bar>) + \<bar>d / 2\<bar> + \<bar>h - d / 2\<bar>" by argo
  have habs2: "\<bar>a + h\<bar> \<le> 3 * (\<bar>a\<bar> + \<bar>b\<bar>) + 1" using habs he dabs2 eta_small by argo
  have r3: "\<bar>a + h\<bar> < 2 ^ 1023" using habs2 ra rb big by argo
  obtain p where p: "round_double (a + h) = Fin p"
    and pe: "\<bar>p - (a + h)\<bar> \<le> \<bar>a + h\<bar> / 9007199254740992 + eta"
    using round_close[OF r3] by blast
  have val: "jadd (Fin a) (jmul (jsub (Fin b) (Fin a)) (Fin 0.5)) = Fin p"
    by (simp add: jsub_fin d h p)
  have T: "\<bar>p - (a + (b - a) / 2)\<bar> \<le> \<bar>p - (a + h)\<bar> + \<bar>h - d / 2\<bar> + \<bar>d - (b - a)\<bar> / 2"
    by argo
  have "\<bar>p - (a + h)\<bar> + \<bar>h - d / 2\<bar> + \<bar>d - (b - a)\<bar> / 2
          \<le> (\<bar>a\<bar> + \<bar>b\<bar>) / 2251799813685248 + 4 * eta"
    by (rule midpoint_arith[OF de tri he dabs pe habs]) simp_all
  with T have "\<bar>p - (a + (b - a) / 2)\<bar> \<le> (\<bar>a\<bar> + \<bar>b\<bar>) / 2251799813685248 + 4 * eta"
    by linarith
  then have "\<bar>p - (a + 0.5 * (b - a))\<bar> \<le> (\<bar>a\<bar> + \<bar>b\<bar>) / 2 ^ 51 + 1 / 2 ^ 1073"
    by (simp add: eta_4)
  with val show ?thesis by blast
qed

lemma max_abs_le:
  "max_abs (x, y, z) \<le> c \<longleftrightarrow> \<bar>x\<bar> \<le> c \<and> \<bar>y\<bar> \<le> c \<and> \<bar>z\<bar> \<le> c"
  by (auto simp: max_abs_def)

lemma placement_close:
  assumes "max_abs (real3 a) \<le> 2 ^ 500" and "max_abs (real3 b) \<le> 2 ^ 500"
  shows "near3 (position (updateBone eps bone (fin3 a) (fin3 b)))
           (spec_placement (real3 a) (real3 b)) (placement_tolerance (real3 a) (real3 b))"
proof -
  obtain ax ay az where a: "a = (ax, ay, az)" by (cases a)
  obtain bx "by" bz where b: "b = (bx, by, bz)" by (cases b)
  from assms have r: "\<bar>Rep_double ax\<bar> \<le> 2 ^ 500" "\<bar>Rep_double ay\<bar> \<le> 2 ^ 500"
      "\<bar>Rep_double az\<bar> \<le> 2 ^ 500" "\<bar>Rep_double bx\<bar> \<le> 2 ^ 500"
      "\<bar>Rep_double by\<bar> \<le> 2 ^ 500" "\<bar>Rep_double bz\<bar> \<le> 2 ^ 500"
    by (simp_all add: a b real3_def max_abs_le)
  have c: "near (jadd (Fin s) (jmul (jsub (Fin t) (Fin s)) (Fin 0.5)))
             (s + 0.5 * (t - s)) ((\<bar>s\<bar> + \<bar>t\<bar>) / 2 ^ 51 + 1 / 2 ^ 1073)"
    if "round_double s = Fin s" "round_double t = Fin t" "\<bar>s\<bar> \<le> 2 ^ 500" "\<bar>t\<bar> \<le> 2 ^ 500"
    for s t
  proof -
    from midpoint_close[OF that] obtain p
      where "jadd (Fin s) (jmul (jsub (Fin t) (Fin s)) (Fin 0.5)) = Fin p"
        and "\<bar>p - (s + 0.5 * (t - s))\<bar> \<le> (\<bar>s\<bar> + \<bar>t\<bar>) / 2 ^ 51 + 1 / 2 ^ 1073"
      by blast
    then show ?thesis by (simp only: near.simps)
  qed
  show ?thesis
    unfolding a b fin3_def real3_def vec_of_def prod.case position_coordinates near3_def
              spec_placement_def placement_tolerance_def vec3.sel
    using c[OF Rep_double_fixed Rep_double_fixed r(1) r(4)]
          c[OF Rep_double_fixed Rep_double_fixed r(2) r(5)]
          c[OF Rep_double_fixed Rep_double_fixed r(3) r(6)]
    by blast
qed

lemma spec_placement_swap: "spec_placement a b = spec_placement b a"
  by (cases a; cases b) (simp add: spec_placement_def field_simps)

lemma placement_tolerance_swap: "placement_tolerance a b = placement_tolerance b a"
  by (cases a; cases b) (simp add: placement_tolerance_def add.commute)

section \<open>The error of the length\<close>


















section \<open>The error of a normalised vector\<close>













section \<open>The error of the orientation\<close>













section \<open>Evaluations on concrete doubles\<close>

lemma double_eighth: "round_double (1 / 8) = Fin (1 / 8)"
  by (rule double_intro[where m = 1 and k = "- 3"]) (simp_all add: power_int_minus_divide)

lemma double_past_minus_eighth:
  "round_double (- (1 / 8 + 1 / 2 ^ 55)) = Fin (- (1 / 8 + 1 / 2 ^ 55))"
  by (rule double_intro[where m = "- (2 ^ 52 + 1)" and k = "- 55"])
     (simp_all add: power_int_minus_divide)

lemma double_tiny: "round_double (- (1 / 2 ^ 55)) = Fin (- (1 / 2 ^ 55))"
  by (rule double_intro[where m = "- 1" and k = "- 55"])
     (simp_all add: power_int_minus_divide)

lemma double_minus_eighth: "round_double (- (1 / 8)) = Fin (- (1 / 8))"
  by (rule double_intro[where m = "- 1" and k = "- 3"]) (simp_all add: power_int_minus_divide)

lemma tie_down: "round_double (- (1 / 8 + 1 / 2 ^ 55) - 1 / 8) = Fin (- (1 / 4))"
  by (subst round_double_normal[where e = "- 2" and n = "- (2 ^ 52)"])
     (simp_all add: power_int_minus rhe_def)

lemma tie_up: "round_double (1 / 8 - - (1 / 8 + 1 / 2 ^ 55)) = Fin (1 / 4)"
  by (subst round_double_normal[where e = "- 2" and n = "2 ^ 52"])
     (simp_all add: power_int_minus rhe_def)

lemma forward_x:
  "jadd (Fin (1 / 8)) (jmul (jsub (Fin (- (1 / 8 + 1 / 2 ^ 55))) (Fin (1 / 8))) (Fin 0.5)) = Fin 0"
proof -
  have "jsub (Fin (- (1 / 8 + 1 / 2 ^ 55))) (Fin (1 / 8)) = Fin (- (1 / 4))"
    by (simp only: jsub_fin tie_down)
  moreover have "jmul (Fin (- (1 / 4))) (Fin 0.5) = Fin (- (1 / 8))"
    using double_minus_eighth by simp
  moreover have "jadd (Fin (1 / 8)) (Fin (- (1 / 8))) = Fin 0" by simp
  ultimately show ?thesis by (simp only:)
qed

lemma backward_x:
  "jadd (Fin (- (1 / 8 + 1 / 2 ^ 55))) (jmul (jsub (Fin (1 / 8)) (Fin (- (1 / 8 + 1 / 2 ^ 55)))) (Fin 0.5))
     = Fin (- (1 / 2 ^ 55))"
proof -
  have "jsub (Fin (1 / 8)) (Fin (- (1 / 8 + 1 / 2 ^ 55))) = Fin (1 / 4)"
    by (simp only: jsub_fin tie_up)
  moreover have "jmul (Fin (1 / 4)) (Fin 0.5) = Fin (1 / 8)"
    using double_eighth by simp
  moreover have "jadd (Fin (- (1 / 8 + 1 / 2 ^ 55))) (Fin (1 / 8)) = Fin (- (1 / 2 ^ 55))"
    using double_tiny by simp
  ultimately show ?thesis by (simp only:)
qed

lemma zero_coordinate: "jadd (Fin 0) (jmul (jsub (Fin 0) (Fin 0)) (Fin 0.5)) = Fin 0"
  by (simp add: jsub_fin)

lemma fin3_eighth: "fin3 (dpoint_of eighth) = Vector3 (Fin (1 / 8)) (Fin 0) (Fin 0)"
  unfolding eighth_def by (rule fin3_dpoint_of[OF double_eighth]) simp_all

lemma fin3_past_minus_eighth:
  "fin3 (dpoint_of past_minus_eighth) = Vector3 (Fin (- (1 / 8 + 1 / 2 ^ 55))) (Fin 0) (Fin 0)"
  unfolding past_minus_eighth_def by (rule fin3_dpoint_of[OF double_past_minus_eighth]) simp_all

lemma forward_position:
  "position (updateBone eps bone (fin3 (dpoint_of eighth)) (fin3 (dpoint_of past_minus_eighth)))
     = Vector3 (Fin 0) (Fin 0) (Fin 0)"
  by (simp only: fin3_eighth fin3_past_minus_eighth position_coordinates forward_x
                 zero_coordinate)

lemma backward_position:
  "position (updateBone eps bone (fin3 (dpoint_of past_minus_eighth)) (fin3 (dpoint_of eighth)))
     = Vector3 (Fin (- (1 / 2 ^ 55))) (Fin 0) (Fin 0)"
  by (simp only: fin3_eighth fin3_past_minus_eighth position_coordinates backward_x
                 zero_coordinate)

lemma real3_eighth: "real3 (dpoint_of eighth) = eighth"
  unfolding eighth_def by (rule real3_dpoint_of[OF double_eighth]) simp_all

lemma real3_past_minus_eighth: "real3 (dpoint_of past_minus_eighth) = past_minus_eighth"
  unfolding past_minus_eighth_def by (rule real3_dpoint_of[OF double_past_minus_eighth]) simp_all

lemma double_2: "round_double (2) = Fin (2)"
  by (rule double_intro[where m = "1" and k = "1"]) (simp_all add: power_int_minus_divide)

lemma double_neg_1: "round_double (- 1) = Fin (- 1)"
  by (rule double_intro[where m = "- 1" and k = "0"]) (simp_all add: power_int_minus_divide)

lemma double_neg_half: "round_double (- (1 / 2)) = Fin (- (1 / 2))"
  by (rule double_intro[where m = "- 1" and k = "- 1"]) (simp_all add: power_int_minus_divide)

lemma double_quarter: "round_double (1 / 4) = Fin (1 / 4)"
  by (rule double_intro[where m = "1" and k = "- 2"]) (simp_all add: power_int_minus_divide)

lemma double_p30: "round_double (1 / 1073741824) = Fin (1 / 1073741824)"
  by (rule double_intro[where m = "1" and k = "- 30"]) (simp_all add: power_int_minus_divide)

lemma double_p31: "round_double (1 / 2147483648) = Fin (1 / 2147483648)"
  by (rule double_intro[where m = "1" and k = "- 31"]) (simp_all add: power_int_minus_divide)

lemma double_p60: "round_double (1 / 1152921504606846976) = Fin (1 / 1152921504606846976)"
  by (rule double_intro[where m = "1" and k = "- 60"]) (simp_all add: power_int_minus_divide)

lemma double_p62: "round_double (1 / 4611686018427387904) = Fin (1 / 4611686018427387904)"
  by (rule double_intro[where m = "1" and k = "- 62"]) (simp_all add: power_int_minus_divide)

lemma absorbed_1: "round_double (1152921504606846977 / 1152921504606846976) = Fin 1"
  by (subst round_double_normal[where e = 0 and n = "2 ^ 52"]) (simp_all add: power_int_minus rhe_def)

lemma absorbed_quarter: "round_double (1152921504606846977 / 4611686018427387904) = Fin (1 / 4)"
  by (subst round_double_normal[where e = "- 2" and n = "2 ^ 52"]) (simp_all add: power_int_minus rhe_def)

lemma sqrt_quarter: "sqrt (1 / 4) = 1 / 2"
  using real_sqrt_abs2[of "1 / 2 :: real"] by (simp add: power2_eq_square)

lemmas dyadic_facts = double_2 double_neg_1 double_neg_half double_quarter double_p30 double_p31
  double_p60 double_p62 absorbed_1 absorbed_quarter sqrt_quarter


lemma nearly_below_position:
  "vadd (Vector3 (Fin 0) (Fin 0) (Fin 0))
     (multiplyScalar (subVectors (Vector3 (Fin (1 / 2 ^ 30)) (Fin (- 1)) (Fin 0))
                                 (Vector3 (Fin 0) (Fin 0) (Fin 0))) (Fin 0.5))
   = Vector3 (Fin (1 / 2 ^ 31)) (Fin (- (1 / 2))) (Fin 0)"
  by (simp add: vadd_def multiplyScalar_def subVectors_def jsub_fin dyadic_facts)












lemma literal_0_02: "round_double 0.02 = Fin (5764607523034235 / 2 ^ 58)"
  by (subst round_double_normal[where e = "- 6" and n = 5764607523034235])
     (simp_all add: power_int_minus rhe_def)

lemma literal_0_05: "round_double 0.05 = Fin (3602879701896397 / 2 ^ 56)"
  by (subst round_double_normal[where e = "- 5" and n = 7205759403792794])
     (simp_all add: power_int_minus rhe_def)

lemma frame_both_bone:
  "position (updateBone Number_EPSILON createBone
               (Vector3 (Fin 0) (Fin 0) (Fin 0)) (Vector3 (Fin (- 1)) (Fin (- 1)) (Fin 0)))
     = Vector3 (Fin (- 1 / 2)) (Fin (- 1 / 2)) (Fin 0)
   \<and> scale (updateBone Number_EPSILON createBone
               (Vector3 (Fin 0) (Fin 0) (Fin 0)) (Vector3 (Fin (- 1)) (Fin (- 1)) (Fin 0)))
     = Vector3 (Fin 1) (round_double (sqrt 2)) (Fin 1)"
  by (simp add: updateBone_def Let_def vadd_def multiplyScalar_def subVectors_def jsub_fin
                vlength_def createBone_def Mesh_def dyadic_facts)


























section \<open>Runs on the concrete inputs\<close>

lemma frame_both_run:
  "onResults Number_EPSILON pair_topology (initScene pair_topology) frame_both =
   Inr \<lparr> jointMeshes = (map createJoint [0 ..< 33])
            [0 := (createJoint 0) \<lparr> position := Vector3 (Fin 0) (Fin 0) (Fin 0), visible := True \<rparr>,
             1 := (createJoint 1) \<lparr> position := Vector3 (Fin (- 1)) (Fin (- 1)) (Fin 0), visible := True \<rparr>],
          boneMeshes = [updateBone Number_EPSILON createBone
                          (Vector3 (Fin 0) (Fin 0) (Fin 0)) (Vector3 (Fin (- 1)) (Fin (- 1)) (Fin 0))] \<rparr>"
  by (simp add: onResults_def frame_both_def initScene_def createBones_def at_index_def
                toRenderSpace_def pair_topology_def)

lemma frame_first_only_run:
  "boneMeshes (sceneAfter (onResults Number_EPSILON pair_topology st frame_first_only)) = boneMeshes st"
  by (simp add: onResults_def frame_first_only_def at_index_def sceneAfter_def pair_topology_def)

lemma frame_nan_run:
  "onResults Number_EPSILON pair_topology (initScene pair_topology) frame_nan =
   Inr \<lparr> jointMeshes = (map createJoint [0 ..< 33])
            [0 := (createJoint 0) \<lparr> position := Vector3 NaN (Fin 0) (Fin 0), visible := True \<rparr>,
             1 := (createJoint 1) \<lparr> position := Vector3 (Fin (- 1)) (Fin (- 1)) (Fin 0), visible := True \<rparr>],
          boneMeshes = [updateBone Number_EPSILON createBone
                          (Vector3 NaN (Fin 0) (Fin 0)) (Vector3 (Fin (- 1)) (Fin (- 1)) (Fin 0))] \<rparr>"
  by (simp add: onResults_def frame_nan_def initScene_def createBones_def at_index_def
                toRenderSpace_def pair_topology_def)

lemma scene_both_joints:
  "jointMeshes scene_both = (map createJoint [0 ..< 33])
      [0 := (createJoint 0) \<lparr> position := Vector3 (Fin 0) (Fin 0) (Fin 0), visible := True \<rparr>,
       1 := (createJoint 1) \<lparr> position := Vector3 (Fin (- 1)) (Fin (- 1)) (Fin 0), visible := True \<rparr>]"
  unfolding scene_both_def by (simp only: frame_both_run) (simp add: sceneAfter_def)

lemma scene_both_bones:
  "boneMeshes scene_both = [updateBone Number_EPSILON createBone
       (Vector3 (Fin 0) (Fin 0) (Fin 0)) (Vector3 (Fin (- 1)) (Fin (- 1)) (Fin 0))]"
  unfolding scene_both_def by (simp only: frame_both_run) (simp add: sceneAfter_def)

lemma first_moved_run:
  "onResults Number_EPSILON pair_topology scene_both frame_first_moved =
     Inr (scene_both \<lparr> jointMeshes := (jointMeshes scene_both)
            [0 := (jointMeshes scene_both ! 0)
                    \<lparr> position := Vector3 (Fin (- 2)) (Fin 0) (Fin 0), visible := True \<rparr>] \<rparr>)"
  by (simp add: onResults_def frame_first_moved_def at_index_def toRenderSpace_def
                pair_topology_def scene_both_joints)

lemma first_moved_then_null_run:
  "onResults Number_EPSILON pair_topology scene_both frame_first_moved_then_null =
     Inl (TypeError, scene_both \<lparr> jointMeshes := (jointMeshes scene_both)
            [0 := (jointMeshes scene_both ! 0)
                    \<lparr> position := Vector3 (Fin (- 2)) (Fin 0) (Fin 0), visible := True \<rparr>] \<rparr>)"
  by (simp add: onResults_def frame_first_moved_then_null_def at_index_def toRenderSpace_def
                pair_topology_def scene_both_joints)

section \<open>Bone visibility after a detected frame\<close>

text \<open>
  C1, as amended. When a frame with landmarks is processed (no element of the array is
  \<open>undefined\<close> or \<open>null\<close>, so the callback returns), a bone is visible afterwards if and
  only if both of its endpoint landmarks are present in that frame or the bone was
  already visible before the frame: a bone with an absent endpoint is left untouched and
  keeps the visibility it had.
\<close>

theorem bone_visible_after_frame:
  assumes "poseWorldLandmarks res = Some lms" and "Nullish \<notin> set lms"
    and "i < length conns" and "i < length (boneMeshes st)"
  shows "returned (onResults eps conns st res) \<and>
         visible (boneMeshes (sceneAfter (onResults eps conns st res)) ! i) =
           ((entry_present (at_index lms (fst (conns ! i))) \<and>
             entry_present (at_index lms (snd (conns ! i))))
            \<or> visible (boneMeshes st ! i))"
proof -
  have b: "boneMeshes (sceneAfter (onResults eps conns st res)) =
           updateBones eps lms conns 0 (boneMeshes st)"
    using assms(1,2) by (rule boneMeshes_after)
  have v: "visible (updateBones eps lms conns 0 (boneMeshes st) ! i) =
           ((entry_present (at_index lms (fst (conns ! i))) \<and>
             entry_present (at_index lms (snd (conns ! i))))
            \<or> visible (boneMeshes st ! i))"
    using assms(3,4)
    by (simp add: updateBones_nth entry_present_def updateBone_visible split: entry.splits)
  show ?thesis
    using onResults_returns[OF assms(1,2)] b v by simp
qed

theorem bone_visible_after_frame_witness:
  "poseWorldLandmarks frame_both = Some [Present (Landmark (Fin 0) (Fin 0) (Fin 0)), Present (Landmark (Fin 1) (Fin 1) (Fin 0))]
   \<and> Nullish \<notin> set [Present (Landmark (Fin 0) (Fin 0) (Fin 0)), Present (Landmark (Fin 1) (Fin 1) (Fin 0))]
   \<and> (0::nat) < length pair_topology
   \<and> 0 < length (boneMeshes (initScene pair_topology))
   \<and> returned (onResults Number_EPSILON pair_topology (initScene pair_topology) frame_both)
   \<and> visible (boneMeshes (sceneAfter (onResults Number_EPSILON pair_topology (initScene pair_topology) frame_both)) ! 0)"
proof -
  have 1: "poseWorldLandmarks frame_both = Some [Present (Landmark (Fin 0) (Fin 0) (Fin 0)), Present (Landmark (Fin 1) (Fin 1) (Fin 0))]"
    by (simp add: frame_both_def)
  have 2: "Nullish \<notin> set [Present (Landmark (Fin 0) (Fin 0) (Fin 0)), Present (Landmark (Fin 1) (Fin 1) (Fin 0))]"
    by simp
  have 3: "(0::nat) < length pair_topology" by (simp add: pair_topology_def)
  have 4: "0 < length (boneMeshes (initScene pair_topology))"
    by (simp add: initScene_def createBones_def pair_topology_def)
  show ?thesis
    using bone_visible_after_frame[OF 1 2 3 4, of Number_EPSILON] 1 2 3 4
    by (simp add: at_index_def entry_present_def pair_topology_def)
qed

text \<open>
  The claim as stated fails: after a frame with both landmarks, a frame in which
  landmark 1 is absent leaves the bone 0--1 visible.
\<close>

theorem bone_stays_visible_counterexample:
  "poseWorldLandmarks frame_first_only = Some [Present (Landmark (Fin 0) (Fin 0) (Fin 0))]
   \<and> at_index [Present (Landmark (Fin 0) (Fin 0) (Fin 0))] (snd (pair_topology ! 0)) = Hole
   \<and> returned (onResults Number_EPSILON pair_topology
         (sceneAfter (onResults Number_EPSILON pair_topology (initScene pair_topology) frame_both))
         frame_first_only)
   \<and> visible (boneMeshes (sceneAfter (onResults Number_EPSILON pair_topology
         (sceneAfter (onResults Number_EPSILON pair_topology (initScene pair_topology) frame_both))
         frame_first_only)) ! 0)"
proof -
  have 1: "poseWorldLandmarks frame_first_only = Some [Present (Landmark (Fin 0) (Fin 0) (Fin 0))]"
    by (simp add: frame_first_only_def)
  have 2: "at_index [Present (Landmark (Fin 0) (Fin 0) (Fin 0))] (snd (pair_topology ! 0)) = Hole"
    by (simp add: at_index_def pair_topology_def)
  have 3: "returned (onResults Number_EPSILON pair_topology
         (sceneAfter (onResults Number_EPSILON pair_topology (initScene pair_topology) frame_both))
         frame_first_only)"
    by (rule onResults_returns[OF 1]) simp
  have 4: "visible (boneMeshes (sceneAfter (onResults Number_EPSILON pair_topology
         (sceneAfter (onResults Number_EPSILON pair_topology (initScene pair_topology) frame_both))
         frame_first_only)) ! 0)"
    by (simp only: frame_first_only_run frame_both_run)
       (simp add: sceneAfter_def updateBone_visible)
  show ?thesis using 1 2 3 4 by blast
qed

section \<open>The coordinate transform\<close>

text \<open>
  C2. A detector-space point \<open>(x, y, z)\<close> is mapped to \<open>(-x, -y, -z)\<close>, and mapping the
  result again gives \<open>(x, y, z)\<close> back, for every finite point.
\<close>

theorem toRenderSpace_involution:
  "toRenderSpace (Landmark (Fin x) (Fin y) (Fin z)) = Vector3 (Fin (- x)) (Fin (- y)) (Fin (- z))
   \<and> toRenderSpace (Landmark (vx (toRenderSpace (Landmark (Fin x) (Fin y) (Fin z))))
                              (vy (toRenderSpace (Landmark (Fin x) (Fin y) (Fin z))))
                              (vz (toRenderSpace (Landmark (Fin x) (Fin y) (Fin z)))))
       = Vector3 (Fin x) (Fin y) (Fin z)"
  by (simp add: toRenderSpace_def)

section \<open>Placement, scale and orientation of a bone\<close>




section \<open>Coincident endpoints\<close>

text \<open>
  C4. For coincident endpoints with double coordinates the bone is placed at the point
  with scale 0 along its axis. No division by zero takes place: the divisor used to
  normalise the direction is 1 (\<open>length() || 1\<close>), and the quaternion that is normalised
  has length 1. Every component of the result is finite; the orientation is the
  identity for a threshold of at most 1.
\<close>

theorem updateBone_coincident:
  "position (updateBone eps bone (fin3 a) (fin3 a)) = fin3 a
   \<and> vy (scale (updateBone eps bone (fin3 a) (fin3 a))) = Fin 0
   \<and> normalize_divisor (multiplyScalar (subVectors (fin3 a) (fin3 a)) (Fin 0.5)) = Fin 1
   \<and> qlength (setFromUnitVectors_raw eps (Vector3 (Fin 0) (Fin 1) (Fin 0))
                (vnormalize (multiplyScalar (subVectors (fin3 a) (fin3 a)) (Fin 0.5)))) = Fin 1
   \<and> quaternion (updateBone eps bone (fin3 a) (fin3 a)) =
        (if 1 < eps then fin4 (0, 0, 1, 0) else fin4 (0, 0, 0, 1))"
proof -
  obtain ax ay az where a: "a = (ax, ay, az)" by (cases a)
  have 1: "position (updateBone eps bone (fin3 a) (fin3 a)) = fin3 a"
    unfolding updateBone_position zero_direction
    by (simp add: a fin3_def vec_of_def real3_def vadd_def)
  have s: "subVectors (fin3 a) (fin3 a) = Vector3 (Fin 0) (Fin 0) (Fin 0)"
    by (simp add: a fin3_def vec_of_def real3_def subVectors_def jsub_fin)
  have 2: "vy (scale (updateBone eps bone (fin3 a) (fin3 a))) = Fin 0"
    unfolding updateBone_scale_y s by (rule vlength_zero)
  have 3: "normalize_divisor (multiplyScalar (subVectors (fin3 a) (fin3 a)) (Fin 0.5)) = Fin 1"
    unfolding zero_direction
    by (simp add: normalize_divisor_def vlength_zero jor_def truthy_def)
  have 4: "qlength (setFromUnitVectors_raw eps (Vector3 (Fin 0) (Fin 1) (Fin 0))
                (vnormalize (multiplyScalar (subVectors (fin3 a) (fin3 a)) (Fin 0.5)))) = Fin 1"
    unfolding zero_direction vnormalize_zero raw_zero by (simp add: qlength_def)
  have 5: "quaternion (updateBone eps bone (fin3 a) (fin3 a)) =
        (if 1 < eps then fin4 (0, 0, 1, 0) else fin4 (0, 0, 0, 1))"
    unfolding updateBone_quaternion zero_direction vnormalize_zero setFromUnitVectors_def raw_zero
    using half_turn_quaternion identity_quaternion by simp
  show ?thesis using 1 2 3 4 5 by blast
qed

section \<open>No detection\<close>

text \<open>
  C5. In every scene that can arise, a result without landmarks makes the callback
  return with each of the 33 joints and each bone hidden.
\<close>

theorem no_detection_hides_everything:
  assumes "reachable eps conns st" and "poseWorldLandmarks res = None"
  shows "returned (onResults eps conns st res)
       \<and> length (jointMeshes (sceneAfter (onResults eps conns st res))) = 33
       \<and> (\<forall>i<33. \<not> visible (jointMeshes (sceneAfter (onResults eps conns st res)) ! i))
       \<and> length (boneMeshes (sceneAfter (onResults eps conns st res))) = length conns
       \<and> (\<forall>i<length conns. \<not> visible (boneMeshes (sceneAfter (onResults eps conns st res)) ! i))"
proof -
  from reachable_invariant[OF assms(1)]
  have lj: "length (jointMeshes st) = 33" and lb: "length (boneMeshes st) = length conns"
    by simp_all
  show ?thesis
    using lj lb
    by (simp add: onResults_None_returns[OF assms(2)] jointMeshes_after_None[OF assms(2)]
                  boneMeshes_after_None[OF assms(2)] hide_def)
qed

theorem no_detection_hides_everything_witness:
  "reachable Number_EPSILON pair_topology
     (sceneAfter (onResults Number_EPSILON pair_topology (initScene pair_topology) frame_both))
   \<and> poseWorldLandmarks no_detection = None
   \<and> visible (jointMeshes (sceneAfter (onResults Number_EPSILON pair_topology (initScene pair_topology) frame_both)) ! 1)
   \<and> visible (boneMeshes (sceneAfter (onResults Number_EPSILON pair_topology (initScene pair_topology) frame_both)) ! 0)
   \<and> returned (onResults Number_EPSILON pair_topology
        (sceneAfter (onResults Number_EPSILON pair_topology (initScene pair_topology) frame_both)) no_detection)
   \<and> (1::nat) < 33
   \<and> \<not> visible (jointMeshes (sceneAfter (onResults Number_EPSILON pair_topology
        (sceneAfter (onResults Number_EPSILON pair_topology (initScene pair_topology) frame_both)) no_detection)) ! 1)
   \<and> (0::nat) < length pair_topology
   \<and> \<not> visible (boneMeshes (sceneAfter (onResults Number_EPSILON pair_topology
        (sceneAfter (onResults Number_EPSILON pair_topology (initScene pair_topology) frame_both)) no_detection)) ! 0)"
proof -
  have r: "reachable Number_EPSILON pair_topology
     (sceneAfter (onResults Number_EPSILON pair_topology (initScene pair_topology) frame_both))"
    by (rule reachable.step, rule reachable.init)
  have n: "poseWorldLandmarks no_detection = None"
    by (simp add: no_detection_def)
  have before: "visible (jointMeshes (sceneAfter (onResults Number_EPSILON pair_topology (initScene pair_topology) frame_both)) ! 1)
     \<and> visible (boneMeshes (sceneAfter (onResults Number_EPSILON pair_topology (initScene pair_topology) frame_both)) ! 0)"
    by (simp add: frame_both_run sceneAfter_def updateBone_visible)
  show ?thesis
    using no_detection_hides_everything[OF r n] r n before by (simp add: pair_topology_def)
qed

section \<open>Landmarks with non-finite coordinates\<close>

text \<open>
  C6, as amended. A present landmark is never rejected: whatever its coordinates are,
  finite or not, its joint is shown at the negated coordinates (NaN stays NaN, an
  infinity changes sign). When a coordinate of the landmark is not finite, the joint
  position is not finite, and every bone that has this landmark at one end and a
  landmark present at the other end is shown with a placement and a scale along the
  axis that are not finite either.
\<close>

theorem nonfinite_landmark_is_shown:
  assumes "poseWorldLandmarks res = Some lms" and "Nullish \<notin> set lms"
    and "i < length (jointMeshes st)" and "at_index lms i = Present l"
  shows "returned (onResults eps conns st res)
       \<and> visible (jointMeshes (sceneAfter (onResults eps conns st res)) ! i)
       \<and> position (jointMeshes (sceneAfter (onResults eps conns st res)) ! i)
           = Vector3 (jneg (lx l)) (jneg (ly l)) (jneg (lz l))
       \<and> (\<not> finite_landmark l \<and> k < length conns \<and> k < length (boneMeshes st)
            \<and> (fst (conns ! k) = i \<or> snd (conns ! k) = i)
            \<and> entry_present (at_index lms (fst (conns ! k)))
            \<and> entry_present (at_index lms (snd (conns ! k)))
          \<longrightarrow> \<not> finite_vec (position (jointMeshes (sceneAfter (onResults eps conns st res)) ! i))
            \<and> visible (boneMeshes (sceneAfter (onResults eps conns st res)) ! k)
            \<and> \<not> finite_vec (position (boneMeshes (sceneAfter (onResults eps conns st res)) ! k))
            \<and> \<not> finite_num (vy (scale (boneMeshes (sceneAfter (onResults eps conns st res)) ! k))))"
proof -
  have J: "returned (onResults eps conns st res)
       \<and> visible (jointMeshes (sceneAfter (onResults eps conns st res)) ! i)
       \<and> position (jointMeshes (sceneAfter (onResults eps conns st res)) ! i)
           = Vector3 (jneg (lx l)) (jneg (ly l)) (jneg (lz l))"
    using onResults_returns[OF assms(1,2)] jointMeshes_after_nth[OF assms(1,2,3)] assms(4)
    by (simp add: toRenderSpace_def)
  have B: "\<not> finite_vec (position (jointMeshes (sceneAfter (onResults eps conns st res)) ! i))
         \<and> visible (boneMeshes (sceneAfter (onResults eps conns st res)) ! k)
         \<and> \<not> finite_vec (position (boneMeshes (sceneAfter (onResults eps conns st res)) ! k))
         \<and> \<not> finite_num (vy (scale (boneMeshes (sceneAfter (onResults eps conns st res)) ! k)))"
    if h: "\<not> finite_landmark l \<and> k < length conns \<and> k < length (boneMeshes st)
            \<and> (fst (conns ! k) = i \<or> snd (conns ! k) = i)
            \<and> entry_present (at_index lms (fst (conns ! k)))
            \<and> entry_present (at_index lms (snd (conns ! k)))"
  proof -
    obtain s where s: "at_index lms (fst (conns ! k)) = Present s"
      using h by (cases "at_index lms (fst (conns ! k))") (simp_all add: entry_present_def)
    obtain e where e: "at_index lms (snd (conns ! k)) = Present e"
      using h by (cases "at_index lms (snd (conns ! k))") (simp_all add: entry_present_def)
    have "s = l \<or> e = l" using h s e assms(4) by auto
    then have nf: "\<not> finite_vec (toRenderSpace s) \<or> \<not> finite_vec (toRenderSpace e)"
      using h by auto
    have b: "boneMeshes (sceneAfter (onResults eps conns st res)) ! k
             = updateBone eps (boneMeshes st ! k) (toRenderSpace s) (toRenderSpace e)"
      unfolding boneMeshes_after[OF assms(1,2)] using h s e
      by (simp add: updateBones_nth)
    have j: "\<not> finite_vec (position (jointMeshes (sceneAfter (onResults eps conns st res)) ! i))"
      using J h by (simp add: finite_vec_def finite_landmark_def)
    show ?thesis
      unfolding b using j updateBone_not_finite[OF nf] by (simp add: updateBone_visible)
  qed
  show ?thesis using J B by blast
qed

theorem nonfinite_landmark_is_shown_witness:
  "poseWorldLandmarks frame_nan =
     Some [Present (Landmark NaN (Fin 0) (Fin 0)), Present (Landmark (Fin 1) (Fin 1) (Fin 0))]
   \<and> Nullish \<notin> set [Present (Landmark NaN (Fin 0) (Fin 0)), Present (Landmark (Fin 1) (Fin 1) (Fin 0))]
   \<and> 0 < length (jointMeshes (initScene pair_topology))
   \<and> at_index [Present (Landmark NaN (Fin 0) (Fin 0)), Present (Landmark (Fin 1) (Fin 1) (Fin 0))] 0
        = Present (Landmark NaN (Fin 0) (Fin 0))
   \<and> \<not> finite_landmark (Landmark NaN (Fin 0) (Fin 0))
   \<and> (0::nat) < length pair_topology
   \<and> 0 < length (boneMeshes (initScene pair_topology))
   \<and> fst (pair_topology ! 0) = 0
   \<and> entry_present (at_index [Present (Landmark NaN (Fin 0) (Fin 0)), Present (Landmark (Fin 1) (Fin 1) (Fin 0))]
                      (fst (pair_topology ! 0)))
   \<and> entry_present (at_index [Present (Landmark NaN (Fin 0) (Fin 0)), Present (Landmark (Fin 1) (Fin 1) (Fin 0))]
                      (snd (pair_topology ! 0)))
   \<and> returned (onResults Number_EPSILON pair_topology (initScene pair_topology) frame_nan)
   \<and> visible (jointMeshes (sceneAfter (onResults Number_EPSILON pair_topology (initScene pair_topology) frame_nan)) ! 0)
   \<and> position (jointMeshes (sceneAfter (onResults Number_EPSILON pair_topology (initScene pair_topology) frame_nan)) ! 0)
        = Vector3 NaN (Fin 0) (Fin 0)
   \<and> visible (boneMeshes (sceneAfter (onResults Number_EPSILON pair_topology (initScene pair_topology) frame_nan)) ! 0)
   \<and> \<not> finite_vec (position (boneMeshes (sceneAfter (onResults Number_EPSILON pair_topology (initScene pair_topology) frame_nan)) ! 0))
   \<and> \<not> finite_num (vy (scale (boneMeshes (sceneAfter (onResults Number_EPSILON pair_topology (initScene pair_topology) frame_nan)) ! 0)))"
proof -
  have 1: "poseWorldLandmarks frame_nan =
     Some [Present (Landmark NaN (Fin 0) (Fin 0)), Present (Landmark (Fin 1) (Fin 1) (Fin 0))]"
    by (simp add: frame_nan_def)
  have 2: "Nullish \<notin> set [Present (Landmark NaN (Fin 0) (Fin 0)), Present (Landmark (Fin 1) (Fin 1) (Fin 0))]"
    by simp
  have 3: "0 < length (jointMeshes (initScene pair_topology))"
    by (simp add: initScene_def)
  have 4: "at_index [Present (Landmark NaN (Fin 0) (Fin 0)), Present (Landmark (Fin 1) (Fin 1) (Fin 0))] 0
        = Present (Landmark NaN (Fin 0) (Fin 0))"
    by (simp add: at_index_def)
  have 5: "\<not> finite_landmark (Landmark NaN (Fin 0) (Fin 0))"
    by (simp add: finite_landmark_def finite_num_def)
  have 6: "(0::nat) < length pair_topology \<and> 0 < length (boneMeshes (initScene pair_topology))
           \<and> fst (pair_topology ! 0) = 0"
    by (simp add: pair_topology_def initScene_def createBones_def)
  have 7: "entry_present (at_index [Present (Landmark NaN (Fin 0) (Fin 0)), Present (Landmark (Fin 1) (Fin 1) (Fin 0))]
                      (fst (pair_topology ! 0)))
     \<and> entry_present (at_index [Present (Landmark NaN (Fin 0) (Fin 0)), Present (Landmark (Fin 1) (Fin 1) (Fin 0))]
                      (snd (pair_topology ! 0)))"
    by (simp add: pair_topology_def at_index_def entry_present_def)
  show ?thesis
    using nonfinite_landmark_is_shown[OF 1 2 3 4, of Number_EPSILON pair_topology 0] 1 2 3 4 5 6 7
    by simp
qed

text \<open>
  The claim as stated fails: a landmark with a NaN coordinate is shown, its joint
  position holds the NaN, and so do the placement and the scale of the bone attached.
\<close>

theorem nan_landmark_counterexample:
  "visible (jointMeshes (sceneAfter (onResults Number_EPSILON pair_topology (initScene pair_topology) frame_nan)) ! 0)
   \<and> vx (position (jointMeshes (sceneAfter (onResults Number_EPSILON pair_topology (initScene pair_topology) frame_nan)) ! 0)) = NaN
   \<and> visible (boneMeshes (sceneAfter (onResults Number_EPSILON pair_topology (initScene pair_topology) frame_nan)) ! 0)
   \<and> vx (position (boneMeshes (sceneAfter (onResults Number_EPSILON pair_topology (initScene pair_topology) frame_nan)) ! 0)) = NaN
   \<and> vy (scale (boneMeshes (sceneAfter (onResults Number_EPSILON pair_topology (initScene pair_topology) frame_nan)) ! 0)) = NaN"
  by (simp only: frame_nan_run)
     (simp add: sceneAfter_def updateBone_def Let_def subVectors_def jsub_def vlength_def
                multiplyScalar_def vadd_def)

section \<open>Symmetry of the bone solver\<close>

text \<open>
  C7, as amended. Swapping the two endpoints leaves the scale along the axis the same,
  bit for bit, for all vectors. The placement is symmetric only up to rounding: for
  endpoints with double coordinates of magnitude at most \<open>2^500\<close>, the placement computed
  from \<open>a\<close> to \<open>b\<close> and the one computed from \<open>b\<close> to \<open>a\<close> both lie within
  \<open>placement_tolerance\<close> of the exact midpoint.
\<close>

theorem updateBone_symmetric:
  "vy (scale (updateBone eps bone p1 p2)) = vy (scale (updateBone eps bone' p2 p1))
   \<and> (max_abs (real3 a) \<le> 2 ^ 500 \<and> max_abs (real3 b) \<le> 2 ^ 500 \<longrightarrow>
        near3 (position (updateBone eps bone (fin3 a) (fin3 b)))
          (spec_placement (real3 a) (real3 b)) (placement_tolerance (real3 a) (real3 b))
      \<and> near3 (position (updateBone eps bone' (fin3 b) (fin3 a)))
          (spec_placement (real3 a) (real3 b)) (placement_tolerance (real3 a) (real3 b)))"
proof (intro conjI impI)
  show "vy (scale (updateBone eps bone p1 p2)) = vy (scale (updateBone eps bone' p2 p1))"
    unfolding updateBone_scale_y by (rule vlength_subVectors_swap)
next
  assume h: "max_abs (real3 a) \<le> 2 ^ 500 \<and> max_abs (real3 b) \<le> 2 ^ 500"
  then show "near3 (position (updateBone eps bone (fin3 a) (fin3 b)))
          (spec_placement (real3 a) (real3 b)) (placement_tolerance (real3 a) (real3 b))"
    by (intro placement_close) simp_all
  from h have "near3 (position (updateBone eps bone' (fin3 b) (fin3 a)))
          (spec_placement (real3 b) (real3 a)) (placement_tolerance (real3 b) (real3 a))"
    by (intro placement_close) simp_all
  then show "near3 (position (updateBone eps bone' (fin3 b) (fin3 a)))
          (spec_placement (real3 a) (real3 b)) (placement_tolerance (real3 a) (real3 b))"
    by (simp only: spec_placement_swap[of "real3 b"] placement_tolerance_swap[of "real3 b"])
qed

theorem updateBone_symmetric_witness:
  "max_abs (real3 (dpoint_of eighth)) \<le> 2 ^ 500
   \<and> max_abs (real3 (dpoint_of past_minus_eighth)) \<le> 2 ^ 500
   \<and> vy (scale (updateBone Number_EPSILON createBone
                  (fin3 (dpoint_of eighth)) (fin3 (dpoint_of past_minus_eighth))))
       = vy (scale (updateBone Number_EPSILON createBone
                  (fin3 (dpoint_of past_minus_eighth)) (fin3 (dpoint_of eighth))))
   \<and> near3 (Vector3 (Fin 0) (Fin 0) (Fin 0))
        (spec_placement eighth past_minus_eighth) (placement_tolerance eighth past_minus_eighth)
   \<and> near3 (Vector3 (Fin (- (1 / 2 ^ 55))) (Fin 0) (Fin 0))
        (spec_placement eighth past_minus_eighth) (placement_tolerance eighth past_minus_eighth)"
proof -
  have 1: "max_abs (real3 (dpoint_of eighth)) \<le> 2 ^ 500"
    by (simp add: real3_eighth) (simp add: eighth_def max_abs_def)
  have 2: "max_abs (real3 (dpoint_of past_minus_eighth)) \<le> 2 ^ 500"
    by (simp add: real3_past_minus_eighth) (simp add: past_minus_eighth_def max_abs_def)
  show ?thesis
    using updateBone_symmetric[of Number_EPSILON createBone "fin3 (dpoint_of eighth)"
            "fin3 (dpoint_of past_minus_eighth)" createBone "dpoint_of eighth"
            "dpoint_of past_minus_eighth"] 1 2
    by (simp add: forward_position backward_position real3_eighth real3_past_minus_eighth)
qed

text \<open>
  The claim as stated fails on doubles. With \<open>a = (1/8, 0, 0)\<close> and
  \<open>b = (-(1/8 + 2^-55), 0, 0)\<close> the difference \<open>b - a\<close> is a tie and rounds to \<open>-1/4\<close>:
  the bone from \<open>a\<close> to \<open>b\<close> is placed at \<open>0\<close>, the bone from \<open>b\<close> to \<open>a\<close> at \<open>-2^-55\<close>.
\<close>

theorem placement_asymmetry_counterexample:
  "real3 (dpoint_of eighth) = eighth
   \<and> real3 (dpoint_of past_minus_eighth) = past_minus_eighth
   \<and> eighth \<noteq> past_minus_eighth
   \<and> position (updateBone Number_EPSILON createBone
                 (fin3 (dpoint_of eighth)) (fin3 (dpoint_of past_minus_eighth)))
       = Vector3 (Fin 0) (Fin 0) (Fin 0)
   \<and> position (updateBone Number_EPSILON createBone
                 (fin3 (dpoint_of past_minus_eighth)) (fin3 (dpoint_of eighth)))
       = Vector3 (Fin (- (1 / 2 ^ 55))) (Fin 0) (Fin 0)"
proof -
  have 1: "real3 (dpoint_of eighth) = eighth"
    unfolding eighth_def by (rule real3_dpoint_of[OF double_eighth]) simp_all
  have 2: "real3 (dpoint_of past_minus_eighth) = past_minus_eighth"
    unfolding past_minus_eighth_def by (rule real3_dpoint_of[OF double_past_minus_eighth]) simp_all
  have 3: "eighth \<noteq> past_minus_eighth"
    by (simp add: eighth_def past_minus_eighth_def)
  have 4: "position (updateBone Number_EPSILON createBone
                 (fin3 (dpoint_of eighth)) (fin3 (dpoint_of past_minus_eighth)))
       = Vector3 (Fin 0) (Fin 0) (Fin 0)"
    by (simp only: fin3_eighth fin3_past_minus_eighth position_coordinates forward_x
                   zero_coordinate)
  have 5: "position (updateBone Number_EPSILON createBone
                 (fin3 (dpoint_of past_minus_eighth)) (fin3 (dpoint_of eighth)))
       = Vector3 (Fin (- (1 / 2 ^ 55))) (Fin 0) (Fin 0)"
    by (simp only: fin3_eighth fin3_past_minus_eighth position_coordinates backward_x
                   zero_coordinate)
  show ?thesis using 1 2 3 4 5 by blast
qed

section \<open>Radius and colour classes of the joints\<close>

text \<open>
  C8. For every joint index below 33, the radius is the double nearest to 0.02 and the
  colour yellow for the indices 0 to 10 and 17 to 22, and the double nearest to 0.05 and
  green otherwise; in every scene that can arise, joint \<open>i\<close> still has the geometry and
  the colour it was constructed with.
\<close>

theorem joint_classes_fixed:
  assumes "reachable eps conns st" and "i < 33"
  shows "getScaleForLandmark (int i) =
           (if i \<le> 10 \<or> (17 \<le> i \<and> i \<le> 22) then round_double 0.02 else round_double 0.05)
       \<and> getColorForLandmark (int i) =
           (if i \<le> 10 \<or> (17 \<le> i \<and> i \<le> 22) then 0xffff00 else 0x00ff00)
       \<and> geometry (jointMeshes st ! i) =
           SphereGeometry
             (if i \<le> 10 \<or> (17 \<le> i \<and> i \<le> 22) then round_double 0.02 else round_double 0.05) 16 16
       \<and> color (jointMeshes st ! i) =
           (if i \<le> 10 \<or> (17 \<le> i \<and> i \<le> 22) then 0xffff00 else 0x00ff00)
       \<and> round_double 0.02 = Fin (5764607523034235 / 2 ^ 58)
       \<and> round_double 0.05 = Fin (3602879701896397 / 2 ^ 56)"
proof -
  from reachable_invariant[OF assms(1)]
  have len: "length (jointMeshes st) = 33"
    and g: "map geometry (jointMeshes st) =
              map (\<lambda>i. SphereGeometry (getScaleForLandmark (int i)) 16 16) [0 ..< 33]"
    and c: "map color (jointMeshes st) = map (\<lambda>i. getColorForLandmark (int i)) [0 ..< 33]"
    by simp_all
  have S: "getScaleForLandmark (int i) =
             (if i \<le> 10 \<or> (17 \<le> i \<and> i \<le> 22) then round_double 0.02 else round_double 0.05)"
    by (simp add: getScaleForLandmark_def)
  have K: "getColorForLandmark (int i) =
             (if i \<le> 10 \<or> (17 \<le> i \<and> i \<le> 22) then 0xffff00 else 0x00ff00)"
    by (simp add: getColorForLandmark_def)
  have "geometry (jointMeshes st ! i) = map geometry (jointMeshes st) ! i"
    using assms(2) len by simp
  also have "\<dots> = SphereGeometry (getScaleForLandmark (int i)) 16 16"
    unfolding g using assms(2) by simp
  finally have G: "geometry (jointMeshes st ! i) =
      SphereGeometry
        (if i \<le> 10 \<or> (17 \<le> i \<and> i \<le> 22) then round_double 0.02 else round_double 0.05) 16 16"
    by (simp only: S)
  have "color (jointMeshes st ! i) = map color (jointMeshes st) ! i"
    using assms(2) len by simp
  also have "\<dots> = getColorForLandmark (int i)"
    unfolding c using assms(2) by simp
  finally have C: "color (jointMeshes st ! i) =
      (if i \<le> 10 \<or> (17 \<le> i \<and> i \<le> 22) then 0xffff00 else 0x00ff00)"
    by (simp only: K)
  show ?thesis using G C S K literal_0_02 literal_0_05 by blast
qed

theorem joint_classes_fixed_witness:
  "reachable Number_EPSILON pair_topology
     (sceneAfter (onResults Number_EPSILON pair_topology (initScene pair_topology) frame_both))
   \<and> (17::nat) < 33
   \<and> getScaleForLandmark 17 = Fin (5764607523034235 / 2 ^ 58)
   \<and> getColorForLandmark 17 = 0xffff00
   \<and> geometry (jointMeshes (sceneAfter (onResults Number_EPSILON pair_topology
        (initScene pair_topology) frame_both)) ! 17)
       = SphereGeometry (Fin (5764607523034235 / 2 ^ 58)) 16 16
   \<and> color (jointMeshes (sceneAfter (onResults Number_EPSILON pair_topology
        (initScene pair_topology) frame_both)) ! 17) = 0xffff00"
proof -
  have r: "reachable Number_EPSILON pair_topology
     (sceneAfter (onResults Number_EPSILON pair_topology (initScene pair_topology) frame_both))"
    by (rule reachable.step, rule reachable.init)
  have i: "(17::nat) < 33" by simp
  show ?thesis
    using joint_classes_fixed[OF r i] r by simp
qed

section \<open>Joint positions of one frame\<close>

text \<open>
  C9, as amended. After a callback with a landmark array, whether it returned or
  threw, each joint mesh is either as it was before the call or shown at this frame's
  landmark for its index. When every joint index has a landmark present, the callback
  returns and every joint is shown at this frame's landmark: only then are the joint
  positions of the scene those of a single frame.
\<close>

theorem joints_of_one_frame:
  assumes "poseWorldLandmarks res = Some lms" and "i < length (jointMeshes st)"
  shows "(jointMeshes (sceneAfter (onResults eps conns st res)) ! i = jointMeshes st ! i
          \<or> (\<exists>l. at_index lms i = Present l
                \<and> jointMeshes (sceneAfter (onResults eps conns st res)) ! i
                   = (jointMeshes st ! i) \<lparr> position := toRenderSpace l, visible := True \<rparr>))
       \<and> (all_present lms (length (jointMeshes st)) \<longrightarrow>
            returned (onResults eps conns st res)
            \<and> (\<exists>l. at_index lms i = Present l
                  \<and> jointMeshes (sceneAfter (onResults eps conns st res)) ! i
                     = (jointMeshes st ! i) \<lparr> position := toRenderSpace l, visible := True \<rparr>))"
  using jointMeshes_after_any[OF assms] jointMeshes_after_present[OF assms(1) _ assms(2)]
  by blast

theorem joints_of_one_frame_witness:
  "poseWorldLandmarks frame_all = Some (replicate 33 (Present (Landmark (Fin 1) (Fin 1) (Fin 0))))
   \<and> 2 < length (jointMeshes (initScene pair_topology))
   \<and> all_present (replicate 33 (Present (Landmark (Fin 1) (Fin 1) (Fin 0))))
        (length (jointMeshes (initScene pair_topology)))
   \<and> returned (onResults Number_EPSILON pair_topology (initScene pair_topology) frame_all)
   \<and> jointMeshes (sceneAfter (onResults Number_EPSILON pair_topology (initScene pair_topology) frame_all)) ! 2
       = (createJoint 2) \<lparr> position := Vector3 (Fin (- 1)) (Fin (- 1)) (Fin 0), visible := True \<rparr>"
proof -
  have 1: "poseWorldLandmarks frame_all =
             Some (replicate 33 (Present (Landmark (Fin 1) (Fin 1) (Fin 0))))"
    by (simp add: frame_all_def)
  have 2: "2 < length (jointMeshes (initScene pair_topology))"
    by (simp add: initScene_def)
  have 3: "all_present (replicate 33 (Present (Landmark (Fin 1) (Fin 1) (Fin 0))))
             (length (jointMeshes (initScene pair_topology)))"
    by (simp add: initScene_def all_present_def list_all_iff at_index_def entry_present_def)
  have 4: "at_index (replicate 33 (Present (Landmark (Fin 1) (Fin 1) (Fin 0)))) 2
             = Present (Landmark (Fin 1) (Fin 1) (Fin 0))"
    by (simp add: at_index_def)
  have 5: "jointMeshes (initScene pair_topology) ! 2 = createJoint 2"
    by (simp add: initScene_def numeral_2_eq_2)
  show ?thesis
    using joints_of_one_frame[OF 1 2, of Number_EPSILON pair_topology] 1 2 3
    by (simp add: 4 5 toRenderSpace_def)
qed

text \<open>
  The claim as stated fails. After a frame with landmarks 0 and 1, a frame with
  landmark 0 only moves joint 0 and leaves joint 1 and the bone 0--1 shown where the
  earlier frame put them. A frame whose second element is \<open>null\<close> makes the callback throw
  after it has moved joint 0, which leaves the same mixture of two frames.
\<close>

theorem mixed_frames_counterexample:
  "reachable Number_EPSILON pair_topology scene_both
   \<and> returned (onResults Number_EPSILON pair_topology scene_both frame_first_moved)
   \<and> position (jointMeshes (sceneAfter
        (onResults Number_EPSILON pair_topology scene_both frame_first_moved)) ! 0)
       = Vector3 (Fin (- 2)) (Fin 0) (Fin 0)
   \<and> visible (jointMeshes (sceneAfter
        (onResults Number_EPSILON pair_topology scene_both frame_first_moved)) ! 1)
   \<and> position (jointMeshes (sceneAfter
        (onResults Number_EPSILON pair_topology scene_both frame_first_moved)) ! 1)
       = Vector3 (Fin (- 1)) (Fin (- 1)) (Fin 0)
   \<and> visible (boneMeshes (sceneAfter
        (onResults Number_EPSILON pair_topology scene_both frame_first_moved)) ! 0)
   \<and> position (boneMeshes (sceneAfter
        (onResults Number_EPSILON pair_topology scene_both frame_first_moved)) ! 0)
       = Vector3 (Fin (- 1 / 2)) (Fin (- 1 / 2)) (Fin 0)
   \<and> \<not> returned (onResults Number_EPSILON pair_topology scene_both frame_first_moved_then_null)
   \<and> position (jointMeshes (sceneAfter
        (onResults Number_EPSILON pair_topology scene_both frame_first_moved_then_null)) ! 0)
       = Vector3 (Fin (- 2)) (Fin 0) (Fin 0)
   \<and> visible (jointMeshes (sceneAfter
        (onResults Number_EPSILON pair_topology scene_both frame_first_moved_then_null)) ! 1)
   \<and> position (jointMeshes (sceneAfter
        (onResults Number_EPSILON pair_topology scene_both frame_first_moved_then_null)) ! 1)
       = Vector3 (Fin (- 1)) (Fin (- 1)) (Fin 0)"
proof -
  have r: "reachable Number_EPSILON pair_topology scene_both"
    unfolding scene_both_def by (rule reachable.step, rule reachable.init)
  have a: "returned (onResults Number_EPSILON pair_topology scene_both frame_first_moved)"
    by (simp only: first_moved_run) (simp add: returned_def)
  have b: "position (jointMeshes (sceneAfter
        (onResults Number_EPSILON pair_topology scene_both frame_first_moved)) ! 0)
       = Vector3 (Fin (- 2)) (Fin 0) (Fin 0)
     \<and> visible (jointMeshes (sceneAfter
        (onResults Number_EPSILON pair_topology scene_both frame_first_moved)) ! 1)
     \<and> position (jointMeshes (sceneAfter
        (onResults Number_EPSILON pair_topology scene_both frame_first_moved)) ! 1)
       = Vector3 (Fin (- 1)) (Fin (- 1)) (Fin 0)"
    by (simp only: first_moved_run) (simp add: sceneAfter_def scene_both_joints)
  have c: "visible (boneMeshes (sceneAfter
        (onResults Number_EPSILON pair_topology scene_both frame_first_moved)) ! 0)
     \<and> position (boneMeshes (sceneAfter
        (onResults Number_EPSILON pair_topology scene_both frame_first_moved)) ! 0)
       = Vector3 (Fin (- 1 / 2)) (Fin (- 1 / 2)) (Fin 0)"
    using frame_both_bone
    by (simp only: first_moved_run) (simp add: sceneAfter_def scene_both_bones updateBone_visible)
  have d: "\<not> returned (onResults Number_EPSILON pair_topology scene_both frame_first_moved_then_null)"
    by (simp only: first_moved_then_null_run) (simp add: returned_def)
  have e: "position (jointMeshes (sceneAfter
        (onResults Number_EPSILON pair_topology scene_both frame_first_moved_then_null)) ! 0)
       = Vector3 (Fin (- 2)) (Fin 0) (Fin 0)
     \<and> visible (jointMeshes (sceneAfter
        (onResults Number_EPSILON pair_topology scene_both frame_first_moved_then_null)) ! 1)
     \<and> position (jointMeshes (sceneAfter
        (onResults Number_EPSILON pair_topology scene_both frame_first_moved_then_null)) ! 1)
       = Vector3 (Fin (- 1)) (Fin (- 1)) (Fin 0)"
    by (simp only: first_moved_then_null_run) (simp add: sceneAfter_def scene_both_joints)
  show ?thesis using r a b c d e by blast
qed

section \<open>The frame condition of the no-detection branch\<close>

text \<open>
  C10. A result without landmarks changes nothing but visibility flags: position, scale
  and orientation of every joint and bone mesh are what they were before the call.
\<close>

theorem no_detection_changes_only_visibility:
  assumes "poseWorldLandmarks res = None"
  shows "returned (onResults eps conns st res)
       \<and> map position (jointMeshes (sceneAfter (onResults eps conns st res))) = map position (jointMeshes st)
       \<and> map scale (jointMeshes (sceneAfter (onResults eps conns st res))) = map scale (jointMeshes st)
       \<and> map quaternion (jointMeshes (sceneAfter (onResults eps conns st res))) = map quaternion (jointMeshes st)
       \<and> map position (boneMeshes (sceneAfter (onResults eps conns st res))) = map position (boneMeshes st)
       \<and> map scale (boneMeshes (sceneAfter (onResults eps conns st res))) = map scale (boneMeshes st)
       \<and> map quaternion (boneMeshes (sceneAfter (onResults eps conns st res))) = map quaternion (boneMeshes st)
       \<and> map geometry (jointMeshes (sceneAfter (onResults eps conns st res))) = map geometry (jointMeshes st)
       \<and> map color (jointMeshes (sceneAfter (onResults eps conns st res))) = map color (jointMeshes st)
       \<and> map geometry (boneMeshes (sceneAfter (onResults eps conns st res))) = map geometry (boneMeshes st)
       \<and> map color (boneMeshes (sceneAfter (onResults eps conns st res))) = map color (boneMeshes st)"
  by (simp add: onResults_None_returns[OF assms] jointMeshes_after_None[OF assms]
                boneMeshes_after_None[OF assms] hide_def comp_def)

theorem no_detection_changes_only_visibility_witness:
  "poseWorldLandmarks no_detection = None
   \<and> position (boneMeshes (sceneAfter (onResults Number_EPSILON pair_topology (initScene pair_topology) frame_both)) ! 0)
       = Vector3 (Fin (- 1 / 2)) (Fin (- 1 / 2)) (Fin 0)
   \<and> map position (boneMeshes (sceneAfter (onResults Number_EPSILON pair_topology
          (sceneAfter (onResults Number_EPSILON pair_topology (initScene pair_topology) frame_both))
          no_detection)))
       = [Vector3 (Fin (- 1 / 2)) (Fin (- 1 / 2)) (Fin 0)]
   \<and> map scale (boneMeshes (sceneAfter (onResults Number_EPSILON pair_topology
          (sceneAfter (onResults Number_EPSILON pair_topology (initScene pair_topology) frame_both))
          no_detection)))
       = [Vector3 (Fin 1) (round_double (sqrt 2)) (Fin 1)]"
proof -
  have n: "poseWorldLandmarks no_detection = None"
    by (simp add: no_detection_def)
  have b: "boneMeshes (sceneAfter (onResults Number_EPSILON pair_topology (initScene pair_topology) frame_both))
           = [updateBone Number_EPSILON createBone
                (Vector3 (Fin 0) (Fin 0) (Fin 0)) (Vector3 (Fin (- 1)) (Fin (- 1)) (Fin 0))]"
    by (simp only: frame_both_run) (simp add: sceneAfter_def)
  show ?thesis
    using no_detection_changes_only_visibility[OF n, of Number_EPSILON pair_topology
        "sceneAfter (onResults Number_EPSILON pair_topology (initScene pair_topology) frame_both)"]
      n b frame_both_bone
    by simp
qed

end
